theory Spec2Isabelle
  imports Main "HOL-Library.Sublist" "HOL-Library.Word"
begin

section \<open>The statement representation\<close>

text \<open>
  The processor lowers one SQL statement to a \<open>Statement\<close>, and the HTTP renderer turns
  a \<open>Statement\<close> into a request. The TypeScript declarations of these types
  (\<open>processor/types.ts\<close>) are not among the sources at hand; the types below follow the
  fields the code reads and the data model of the specification.
\<close>

text \<open>A scalar of a VALUES row or a SET clause: \<open>string | number | boolean | null\<close>.
  A float constant reaches the processor as the text the parser kept (\<open>fval.fval\<close>).\<close>

datatype atom = AString string | AInteger int | AFloat string | ABool bool | ANull

text \<open>Modelled from the spec: the operators of a column filter (section 3 of the
  specification lists them; the string literal union itself is declared in
  \<open>processor/types.ts\<close>).\<close>

datatype column_operator =
    Eq | Neq | Gt | Gte | Lt | Lte | Like | Ilike | Is | In
  | Fts | Plfts | Phfts | Wfts | Cs | Cd | Ov | Sl | Sr | Nxr | Nxl | Adj

datatype logical_operator = And | Or

datatype filter_value = Single atom | Many "atom list"

text \<open>A filter is a tagged union, \<open>type: 'column'\<close> or \<open>type: 'logical'\<close>. The fields of
  \<open>ColumnFilter\<close> are column, operator, negate, value; those of \<open>LogicalFilter\<close> are
  operator, negate, values.\<close>

datatype Filter =
    ColumnFilter string column_operator bool filter_value
  | LogicalFilter logical_operator bool "Filter list"

text \<open>Modelled from the spec: the three kinds of target (section 3). The renderer reads
  only \<open>type\<close> and, of a column target, \<open>column\<close>. The fields of \<open>ColumnTarget\<close> are
  column, alias, cast.\<close>

datatype Target =
    ColumnTarget string "string option" "string option"
  | ResourceTarget string "Target list"
  | AggregateTarget string string "string option"

datatype direction = Asc | Desc

datatype nulls_order = First | Last

record Sort =
  sort_column :: string
  sort_direction :: "direction option"
  sort_nulls :: "nulls_order option"

text \<open>
  A JavaScript number, as far as \<open>Number.prototype.toString\<close> needs it. A safe integer
  (one of magnitude at most \<open>2^53 - 1\<close>, the integers for which \<open>toString\<close> writes
  the decimal digits) is \<open>SafeInteger negative magnitude\<close>; the magnitude is a 53-bit
  word, so every value of the type is such a number. Any other number (a fraction, an
  integer beyond the safe range, for which \<open>toString\<close> may round or write an exponent
  as in \<open>1e+21\<close>, an infinity, NaN) is \<open>OtherNumber\<close> with the text that \<open>toString\<close>
  gives for it.
\<close>

datatype js_number = SafeInteger bool "53 word" | OtherNumber string

record Limit =
  count :: "js_number option"
  offset :: "js_number option"

record Select =
  sel_from :: string
  sel_targets :: "Target list"
  sel_filter :: "Filter option"
  sel_sorts :: "Sort list option"
  sel_limit :: "Limit option"

record Insert =
  ins_into :: string
  ins_columns :: "string list"
  ins_values :: "atom list list"
  ins_returning :: "string list option"

text \<open>A value stored in an object: a scalar, or \<open>undefined\<close> (what \<open>row[index]\<close> is when
  the row is shorter than the column list).\<close>

datatype js_value = Undefined | Value atom

text \<open>
  An object that starts as the literal \<open>{}\<close> and is changed by assignments
  \<open>obj[key] = value\<close> only: its own properties, and whether its prototype is still
  \<open>Object.prototype\<close> or has been set to \<open>null\<close>.
\<close>

datatype prototype = ObjectPrototype | NullPrototype

record js_object =
  own :: "string \<rightharpoonup> js_value"
  prototype :: prototype

record Update =
  upd_table :: string
  upd_set :: js_object
  upd_filter :: "Filter option"
  upd_returning :: "string list option"

record Delete =
  del_from :: string
  del_filter :: "Filter option"
  del_returning :: "string list option"

datatype Statement =
    SelectStatement Select
  | InsertStatement Insert
  | UpdateStatement Update
  | DeleteStatement Delete

text \<open>The errors the pipeline throws. A \<open>ParsingError\<close> carries the parser's message, the
  hint and the cursor position; \<open>ThrownError\<close> is any other error of the parser, which
  \<open>processSql\<close> throws again unchanged.\<close>

datatype error =
    ParsingError string "string option" nat
  | UnsupportedError string
  | UnimplementedError string
  | RenderError string
  | ThrownError string

section \<open>Strings and query parameters\<close>

text \<open>\<open>Array.prototype.join\<close> with a separator.\<close>

fun join :: "string \<Rightarrow> string list \<Rightarrow> string" where
  "join sep [] = []"
| "join sep [x] = x"
| "join sep (x # y # zs) = x @ sep @ join sep (y # zs)"

text \<open>\<open>String.prototype.split\<close> with a one-character separator: the pieces between
  the separators, so the result of splitting the empty string is one empty piece.\<close>

fun split :: "char \<Rightarrow> string \<Rightarrow> string list" where
  "split c [] = [[]]"
| "split c (x # xs) =
     (if x = c then [] # split c xs
      else (x # hd (split c xs)) # tl (split c xs))"

text \<open>\<open>Array.prototype.pop\<close> as the code uses it: the last element, \<open>undefined\<close> on
  the empty array.\<close>

definition pop :: "'a list \<Rightarrow> 'a option" where
  "pop xs = (if xs = [] then None else Some (last xs))"

text \<open>\<open>Number.prototype.toString\<close>: a safe integer is written in decimal, with a minus
  sign when it is negative and not zero (\<open>-0\<close> is written \<open>0\<close>).\<close>

definition digit :: "nat \<Rightarrow> char" where
  "digit d = ''0123456789'' ! d"

function natToString :: "nat \<Rightarrow> string" where
  "natToString n = (if n < 10 then [digit n] else natToString (n div 10) @ [digit (n mod 10)])"
  by pat_completeness auto
termination
  by (relation "measure id") auto

declare natToString.simps [simp del]

definition numberToString :: "js_number \<Rightarrow> string" where
  "numberToString n =
     (case n of
        SafeInteger negative magnitude \<Rightarrow>
          (if negative \<and> magnitude \<noteq> 0 then CHR ''-'' # natToString (unat magnitude)
           else natToString (unat magnitude))
      | OtherNumber s \<Rightarrow> s)"

text \<open>\<open>URLSearchParams\<close>: an ordered list of name-value pairs. \<open>append\<close> adds a pair at
  the end; \<open>set\<close> gives the first pair of that name the new value and removes the other
  pairs of that name, or appends when there is none.\<close>

type_synonym URLSearchParams = "(string \<times> string) list"

definition params_append :: "string \<times> string \<Rightarrow> URLSearchParams \<Rightarrow> URLSearchParams" where
  "params_append kv params = params @ [kv]"

fun params_set :: "string \<Rightarrow> string \<Rightarrow> URLSearchParams \<Rightarrow> URLSearchParams" where
  "params_set k v [] = [(k, v)]"
| "params_set k v (p # ps) =
     (if fst p = k then (k, v) # filter (\<lambda>q. fst q \<noteq> k) ps
      else p # params_set k v ps)"

text \<open>\<open>URLSearchParams.getAll\<close>: the values of a name, in order.\<close>

definition params_getAll :: "string \<Rightarrow> URLSearchParams \<Rightarrow> string list" where
  "params_getAll k params = map snd (filter (\<lambda>q. fst q = k) params)"

section \<open>Assignment to a property of an object\<close>

text \<open>\<open>obj[key] = value\<close> on such an object, where the value is a scalar or \<open>undefined\<close>.
  For every key but \<open>__proto__\<close> it creates or overwrites the own property. The key
  \<open>__proto__\<close> is an accessor of \<open>Object.prototype\<close>: while the object inherits it and
  has no own property of that name, the assignment calls the setter, which sets the
  prototype to \<open>null\<close> when the value is \<open>null\<close> and does nothing for any other scalar
  and for \<open>undefined\<close>; once the prototype is \<open>null\<close> the assignment creates an own
  property like any other.\<close>

definition emptyObject :: js_object where
  "emptyObject = \<lparr> own = Map.empty, prototype = ObjectPrototype \<rparr>"

definition assign :: "js_object \<Rightarrow> string \<Rightarrow> js_value \<Rightarrow> js_object" where
  "assign obj key v =
     (if key = ''__proto__'' \<and> own obj key = None \<and> prototype obj = ObjectPrototype
      then (if v = Value ANull then obj\<lparr> prototype := NullPrototype \<rparr> else obj)
      else obj\<lparr> own := (own obj)(key \<mapsto> v) \<rparr>)"

section \<open>The HTTP renderer\<close>

subsection \<open>The filter-root routine\<close>

text \<open>
  \<open>renderFilterRoot(params, filter)\<close> appends to \<open>params\<close>; the model returns the new
  list. \<open>renderFilter\<close> (of \<open>renderers/util\<close>, not among the sources) is the parameter
  \<open>rf\<close>: it gives the key and the value of one filter. The loop over the children of a
  non-negated \<open>and\<close> is \<open>renderFilterRootEach\<close>.
\<close>

fun renderFilterRoot ::
    "(Filter \<Rightarrow> string \<times> string) \<Rightarrow> URLSearchParams \<Rightarrow> Filter \<Rightarrow> URLSearchParams"
  and renderFilterRootEach ::
    "(Filter \<Rightarrow> string \<times> string) \<Rightarrow> URLSearchParams \<Rightarrow> Filter list \<Rightarrow> URLSearchParams"
where
  "renderFilterRoot rf params (LogicalFilter operator negate values) =
     (if operator = And \<and> \<not> negate then renderFilterRootEach rf params values
      else params_append (rf (LogicalFilter operator negate values)) params)"
| "renderFilterRoot rf params (ColumnFilter column operator negate v) =
     params_append (rf (ColumnFilter column operator negate v)) params"
| "renderFilterRootEach rf params [] = params"
| "renderFilterRootEach rf params (subFilter # rest) =
     renderFilterRootEach rf (renderFilterRoot rf params subFilter) rest"

text \<open>What the specification says the routine emits: the filters left once every
  non-negated \<open>and\<close> at the root has been replaced by its children, in order.\<close>

fun rootFilters :: "Filter \<Rightarrow> Filter list" where
  "rootFilters (LogicalFilter And False values) = concat (map rootFilters values)"
| "rootFilters f = [f]"

subsection \<open>Requests\<close>

datatype http_method = GET | POST | PATCH | DELETE

text \<open>The body of a request: one object or an array of objects.\<close>

datatype body = ObjectBody js_object | ArrayBody "js_object list"

text \<open>The field \<open>method\<close> of the source is \<open>request_method\<close> here.\<close>

record HttpRequest =
  request_method :: http_method
  path :: string
  params :: URLSearchParams
  body :: "body option"
  fullPath :: string

text \<open>The getter \<open>fullPath\<close>, the same in the four formatters. \<open>uriEncodeParams\<close> (of
  \<open>renderers/util\<close>, not among the sources) is the parameter \<open>enc\<close>.\<close>

definition fullPathOf :: "(URLSearchParams \<Rightarrow> string) \<Rightarrow> string \<Rightarrow> URLSearchParams \<Rightarrow> string" where
  "fullPathOf enc p ps = (if length ps > 0 then p @ ''?'' @ enc ps else p)"

subsection \<open>SELECT\<close>

text \<open>The blocks of \<open>formatSelect\<close>, each taking the parameters built so far.
  \<open>renderTargets\<close> (of \<open>renderers/util\<close>, not among the sources) is the parameter
  \<open>rt\<close>.\<close>

definition isSelectStar :: "Target list \<Rightarrow> bool" where
  "isSelectStar targets =
     (case hd targets of
        ColumnTarget column alias cast \<Rightarrow> column = ''*'' \<and> length targets = 1
      | _ \<Rightarrow> False)"

definition selectParam :: "(Target list \<Rightarrow> string) \<Rightarrow> Target list \<Rightarrow> URLSearchParams \<Rightarrow> URLSearchParams" where
  "selectParam rt targets ps =
     (if length targets > 0 then
        (if \<not> isSelectStar targets then params_set ''select'' (rt targets) ps else ps)
      else ps)"

definition directionName :: "direction \<Rightarrow> string" where
  "directionName d = (case d of Asc \<Rightarrow> ''asc'' | Desc \<Rightarrow> ''desc'')"

definition nullsName :: "nulls_order \<Rightarrow> string" where
  "nullsName n = (case n of First \<Rightarrow> ''first'' | Last \<Rightarrow> ''last'')"

definition sortValue :: "Sort \<Rightarrow> string" where
  "sortValue srt =
     (let v = sort_column srt;
          v = (case sort_direction srt of Some d \<Rightarrow> v @ ''.'' @ directionName d | None \<Rightarrow> v);
          v = (case sort_nulls srt of Some n \<Rightarrow> v @ ''.nulls'' @ nullsName n | None \<Rightarrow> v)
      in v)"

definition orderParam :: "Sort list option \<Rightarrow> URLSearchParams \<Rightarrow> URLSearchParams" where
  "orderParam sorts ps =
     (case sorts of
        None \<Rightarrow> ps
      | Some ss \<Rightarrow>
          (let columns = map sortValue ss
           in if length columns > 0 then params_set ''order'' (join '','' columns) ps else ps))"

definition limitParams :: "Limit option \<Rightarrow> URLSearchParams \<Rightarrow> URLSearchParams" where
  "limitParams limit ps =
     (case limit of
        None \<Rightarrow> ps
      | Some l \<Rightarrow>
          (let ps1 = (case count l of Some c \<Rightarrow> params_set ''limit'' (numberToString c) ps | None \<Rightarrow> ps);
               ps2 = (case offset l of Some off \<Rightarrow> params_set ''offset'' (numberToString off) ps1 | None \<Rightarrow> ps1)
           in ps2))"

definition filterParams ::
    "(Filter \<Rightarrow> string \<times> string) \<Rightarrow> Filter option \<Rightarrow> URLSearchParams \<Rightarrow> URLSearchParams" where
  "filterParams rf flt ps = (case flt of Some f \<Rightarrow> renderFilterRoot rf ps f | None \<Rightarrow> ps)"

definition formatSelect ::
    "(Filter \<Rightarrow> string \<times> string) \<Rightarrow> (Target list \<Rightarrow> string) \<Rightarrow> (URLSearchParams \<Rightarrow> string)
      \<Rightarrow> Select \<Rightarrow> HttpRequest" where
  "formatSelect rf rt enc select =
     (let ps = [];
          ps = selectParam rt (sel_targets select) ps;
          ps = filterParams rf (sel_filter select) ps;
          ps = orderParam (sel_sorts select) ps;
          ps = limitParams (sel_limit select) ps;
          p = ''/'' @ sel_from select
      in \<lparr> request_method = GET, path = p, params = ps, body = None, fullPath = fullPathOf enc p ps \<rparr>)"

subsection \<open>INSERT, UPDATE, DELETE\<close>

text \<open>The RETURNING block, the same in the three formatters.\<close>

definition returningParam :: "string list option \<Rightarrow> URLSearchParams \<Rightarrow> URLSearchParams" where
  "returningParam returning ps =
     (case returning of
        None \<Rightarrow> ps
      | Some r \<Rightarrow> if length r > 0 then params_set ''select'' (join '','' r) ps else ps)"

definition at :: "atom list \<Rightarrow> nat \<Rightarrow> js_value" where
  "at row index = (if index < length row then Value (row ! index) else Undefined)"

text \<open>\<open>columns.forEach((col, index) => { obj[col] = row[index] })\<close>: the loop, from the
  index it has reached, and the object of a row, built from \<open>{}\<close>.\<close>

fun assignColumns :: "js_object \<Rightarrow> string list \<Rightarrow> nat \<Rightarrow> atom list \<Rightarrow> js_object" where
  "assignColumns obj [] index row = obj"
| "assignColumns obj (col # rest) index row =
     assignColumns (assign obj col (at row index)) rest (Suc index) row"

definition rowObject :: "string list \<Rightarrow> atom list \<Rightarrow> js_object" where
  "rowObject columns row = assignColumns emptyObject columns 0 row"

text \<open>The body of the INSERT request: \<open>values.map(row => ...)\<close>, then
  \<open>body.length === 1 ? body[0] : body\<close>.\<close>

definition insertBody :: "Insert \<Rightarrow> body" where
  "insertBody ins =
     (let rows = map (rowObject (ins_columns ins)) (ins_values ins)
      in if length rows = 1 then ObjectBody (hd rows) else ArrayBody rows)"

definition formatInsert :: "(URLSearchParams \<Rightarrow> string) \<Rightarrow> Insert \<Rightarrow> HttpRequest" where
  "formatInsert enc ins =
     (let ps = returningParam (ins_returning ins) [];
          p = ''/'' @ ins_into ins
      in \<lparr> request_method = POST, path = p, params = ps,
           body = Some (insertBody ins),
           fullPath = fullPathOf enc p ps \<rparr>)"

definition formatUpdate ::
    "(Filter \<Rightarrow> string \<times> string) \<Rightarrow> (URLSearchParams \<Rightarrow> string) \<Rightarrow> Update \<Rightarrow> HttpRequest" where
  "formatUpdate rf enc upd =
     (let ps = returningParam (upd_returning upd) [];
          ps = filterParams rf (upd_filter upd) ps;
          p = ''/'' @ upd_table upd
      in \<lparr> request_method = PATCH, path = p, params = ps,
           body = Some (ObjectBody (upd_set upd)),
           fullPath = fullPathOf enc p ps \<rparr>)"

definition formatDelete ::
    "(Filter \<Rightarrow> string \<times> string) \<Rightarrow> (URLSearchParams \<Rightarrow> string) \<Rightarrow> Delete \<Rightarrow> HttpRequest" where
  "formatDelete rf enc deleteStmt =
     (let ps = returningParam (del_returning deleteStmt) [];
          ps = filterParams rf (del_filter deleteStmt) ps;
          p = ''/'' @ del_from deleteStmt
      in \<lparr> request_method = DELETE, path = p, params = ps, body = None,
           fullPath = fullPathOf enc p ps \<rparr>)"

definition renderHttp ::
    "(Filter \<Rightarrow> string \<times> string) \<Rightarrow> (Target list \<Rightarrow> string) \<Rightarrow> (URLSearchParams \<Rightarrow> string)
      \<Rightarrow> Statement \<Rightarrow> HttpRequest" where
  "renderHttp rf rt enc processed =
     (case processed of
        SelectStatement s \<Rightarrow> formatSelect rf rt enc s
      | InsertStatement i \<Rightarrow> formatInsert enc i
      | UpdateStatement u \<Rightarrow> formatUpdate rf enc u
      | DeleteStatement d \<Rightarrow> formatDelete rf enc d)"

section \<open>The processor\<close>

subsection \<open>The parse tree\<close>

text \<open>
  The nodes of the parser's tree that the processors read (their TypeScript declarations,
  \<open>types/libpg-query\<close>, are not among the sources). A key the code tests with \<open>in\<close>
  is a constructor, or an optional field; a node without the key is the \<open>Other\<close>
  constructor of its type.
\<close>

text \<open>A constant: \<open>sval\<close>, \<open>ival\<close> and \<open>fval\<close> are wrappers that hold the value under
  the same key, and the code tests both keys (\<open>'sval' in c && 'sval' in c.sval\<close>).\<close>

record a_const =
  ac_sval :: "string option option"
  ac_ival :: "int option option"
  ac_fval :: "string option option"
  ac_boolval :: "bool option"
  ac_Null :: bool

datatype field = String string | A_Star

datatype node = A_Const a_const | ColumnRef "field list" | OtherNode

record res_target =
  rt_name :: "string option"
  rt_val :: node

datatype list_item = ResTarget res_target | OtherItem

record range_var =
  relname :: string

record insert_select =
  valuesLists :: "node list list option"

record insert_stmt =
  ins_relation :: "range_var option"
  ins_cols :: "list_item list option"
  ins_selectStmt :: "insert_select option"
  ins_returningList :: "list_item list option"
  ins_onConflictClause :: bool

record 'w update_stmt =
  upd_relation :: "range_var option"
  upd_targetList :: "list_item list option"
  upd_whereClause :: "'w option"
  upd_returningList :: "list_item list option"

record 'w delete_stmt =
  del_relation :: "range_var option"
  del_whereClause :: "'w option"
  del_returningList :: "list_item list option"

text \<open>A statement of the parser, by its key; \<open>OtherStmt\<close> carries the key of any other
  kind of statement. The SELECT node \<open>'s\<close> and the WHERE node \<open>'w\<close> are read only by
  \<open>processSelectStatement\<close> and \<open>processWhereClause\<close>, which are not among the sources.\<close>

datatype ('s, 'w) Stmt =
    SelectStmt 's
  | InsertStmt insert_stmt
  | UpdateStmt "'w update_stmt"
  | DeleteStmt "'w delete_stmt"
  | ExplainStmt
  | OtherStmt string

record primary_relation =
  rel_name :: string
  rel_reference :: string

record Relations =
  primary :: primary_relation
  joined :: "primary_relation list"

subsection \<open>Constants and RETURNING\<close>

text \<open>The chain of tests on a constant, the same in the INSERT and UPDATE processors;
  \<open>None\<close> is its last \<open>else\<close>, where each processor throws its own message.\<close>

definition constAtom :: "a_const \<Rightarrow> atom option" where
  "constAtom c =
     (case ac_sval c of
        Some (Some s) \<Rightarrow> Some (AString s)
      | _ \<Rightarrow>
     (case ac_ival c of
        Some (Some i) \<Rightarrow> Some (AInteger i)
      | _ \<Rightarrow>
     (case ac_fval c of
        Some (Some f) \<Rightarrow> Some (AFloat f)
      | _ \<Rightarrow>
     (case ac_boolval c of
        Some b \<Rightarrow> Some (ABool b)
      | None \<Rightarrow> if ac_Null c then Some ANull else None))))"

text \<open>The column name of a RETURNING entry:
  \<open>fields.map(f => 'String' in f ? f.String.sval : '').join('.').split('.').pop()\<close>.\<close>

definition fieldText :: "field \<Rightarrow> string" where
  "fieldText f = (case f of String sval \<Rightarrow> sval | _ \<Rightarrow> [])"

definition returningColumnName :: "field list \<Rightarrow> string option" where
  "returningColumnName flds = pop (split (CHR ''.'') (join ''.'' (map fieldText flds)))"

text \<open>The loop over \<open>returningList\<close>, the same in the three processors: a name is pushed
  when it is truthy (defined and not empty).\<close>

fun returningColumns :: "list_item list \<Rightarrow> error + string list" where
  "returningColumns [] = Inr []"
| "returningColumns (returnTarget # rest) =
     (case returnTarget of
        ResTarget target \<Rightarrow>
          (case rt_val target of
             ColumnRef flds \<Rightarrow>
               (case returningColumns rest of
                  Inl e \<Rightarrow> Inl e
                | Inr names \<Rightarrow>
                    (case returningColumnName flds of
                       Some columnName \<Rightarrow> Inr (if columnName \<noteq> [] then columnName # names else names)
                     | None \<Rightarrow> Inr names))
           | _ \<Rightarrow> Inl (UnsupportedError ''RETURNING clause only supports simple column names''))
      | _ \<Rightarrow> Inl (UnsupportedError ''RETURNING clause only supports simple column names''))"

definition processReturning :: "list_item list option \<Rightarrow> error + string list option" where
  "processReturning returningList =
     (case returningList of
        None \<Rightarrow> Inr None
      | Some l \<Rightarrow> (case returningColumns l of Inl e \<Rightarrow> Inl e | Inr names \<Rightarrow> Inr (Some names)))"

subsection \<open>INSERT\<close>

fun insertColumns :: "list_item list \<Rightarrow> error + string list" where
  "insertColumns [] = Inr []"
| "insertColumns (col # rest) =
     (case col of
        ResTarget r \<Rightarrow>
          (case insertColumns rest of
             Inl e \<Rightarrow> Inl e
           | Inr columns \<Rightarrow>
               (case rt_name r of
                  Some n \<Rightarrow> Inr (if n \<noteq> [] then n # columns else columns)
                | None \<Rightarrow> Inr columns))
      | _ \<Rightarrow> Inl (UnsupportedError ''INSERT column specification must be a simple column name''))"

fun insertRow :: "node list \<Rightarrow> error + atom list" where
  "insertRow [] = Inr []"
| "insertRow (v # rest) =
     (case v of
        A_Const constValue \<Rightarrow>
          (case constAtom constValue of
             Some a \<Rightarrow> (case insertRow rest of Inl e \<Rightarrow> Inl e | Inr rowValues \<Rightarrow> Inr (a # rowValues))
           | None \<Rightarrow> Inl (UnsupportedError ''Unsupported constant type in INSERT values''))
      | _ \<Rightarrow> Inl (UnsupportedError ''INSERT values must be constants (no expressions or subqueries)''))"

fun insertRows :: "node list list \<Rightarrow> error + atom list list" where
  "insertRows [] = Inr []"
| "insertRows (valueList # rest) =
     (case insertRow valueList of
        Inl e \<Rightarrow> Inl e
      | Inr rowValues \<Rightarrow> (case insertRows rest of Inl e \<Rightarrow> Inl e | Inr rows \<Rightarrow> Inr (rowValues # rows)))"

definition insertValues :: "insert_select option \<Rightarrow> error + atom list list" where
  "insertValues selectStmt =
     (case selectStmt of
        None \<Rightarrow> Inr []
      | Some s \<Rightarrow>
          (case valuesLists s of
             Some valueLists \<Rightarrow> insertRows valueLists
           | None \<Rightarrow> Inl (UnsupportedError ''INSERT ... SELECT statements are not supported'')))"

definition processInsertStatement :: "insert_stmt \<Rightarrow> error + Insert" where
  "processInsertStatement insertStmt =
     (case ins_relation insertStmt of
        None \<Rightarrow> Inl (UnsupportedError ''INSERT statement must specify a table'')
      | Some relation \<Rightarrow>
     (case (case ins_cols insertStmt of None \<Rightarrow> Inr [] | Some cols \<Rightarrow> insertColumns cols) of
        Inl e \<Rightarrow> Inl e
      | Inr columns \<Rightarrow>
     (case insertValues (ins_selectStmt insertStmt) of
        Inl e \<Rightarrow> Inl e
      | Inr rows \<Rightarrow>
     (case processReturning (ins_returningList insertStmt) of
        Inl e \<Rightarrow> Inl e
      | Inr returning \<Rightarrow>
          if ins_onConflictClause insertStmt
          then Inl (UnsupportedError ''INSERT ... ON CONFLICT (upsert) is not supported'')
          else Inr \<lparr> ins_into = relname relation, ins_columns = columns, ins_values = rows,
                     ins_returning = returning \<rparr>))))"

subsection \<open>The basic-operator validator of UPDATE and DELETE\<close>

definition operatorName :: "column_operator \<Rightarrow> string" where
  "operatorName operator =
     (case operator of
        Eq \<Rightarrow> ''eq'' | Neq \<Rightarrow> ''neq'' | Gt \<Rightarrow> ''gt'' | Gte \<Rightarrow> ''gte'' | Lt \<Rightarrow> ''lt''
      | Lte \<Rightarrow> ''lte'' | Like \<Rightarrow> ''like'' | Ilike \<Rightarrow> ''ilike'' | Is \<Rightarrow> ''is'' | In \<Rightarrow> ''in''
      | Fts \<Rightarrow> ''fts'' | Plfts \<Rightarrow> ''plfts'' | Phfts \<Rightarrow> ''phfts'' | Wfts \<Rightarrow> ''wfts''
      | Cs \<Rightarrow> ''cs'' | Cd \<Rightarrow> ''cd'' | Ov \<Rightarrow> ''ov'' | Sl \<Rightarrow> ''sl'' | Sr \<Rightarrow> ''sr''
      | Nxr \<Rightarrow> ''nxr'' | Nxl \<Rightarrow> ''nxl'' | Adj \<Rightarrow> ''adj'')"

definition allowedOperators :: "column_operator list" where
  "allowedOperators = [Eq, Neq, Gt, Gte, Lt, Lte]"

text \<open>The message of the validator; \<open>kind\<close> is \<open>UPDATE\<close> or \<open>DELETE\<close>.\<close>

definition basicOperatorsMessage :: "string \<Rightarrow> string" where
  "basicOperatorsMessage kind =
     kind @ '' WHERE clause only supports basic operators: ''
       @ join '', '' (map operatorName allowedOperators)"

text \<open>
  \<open>validateBasicFilters\<close> is written twice, in \<open>processor/update.ts\<close> and in the DELETE
  processor; the two differ in the first word of the message only, which is the parameter
  \<open>kind\<close> here. The loop over the children of a logical filter is
  \<open>validateBasicFiltersEach\<close>: it stops at the first child that throws.
\<close>

fun validateBasicFilters :: "string \<Rightarrow> Filter \<Rightarrow> error + unit"
  and validateBasicFiltersEach :: "string \<Rightarrow> Filter list \<Rightarrow> error + unit"
where
  "validateBasicFilters kind (ColumnFilter column operator negate v) =
     (if operator \<notin> set allowedOperators
      then Inl (UnsupportedError (basicOperatorsMessage kind))
      else Inr ())"
| "validateBasicFilters kind (LogicalFilter operator negate values) =
     validateBasicFiltersEach kind values"
| "validateBasicFiltersEach kind [] = Inr ()"
| "validateBasicFiltersEach kind (subFilter # rest) =
     (case validateBasicFilters kind subFilter of
        Inl e \<Rightarrow> Inl e
      | Inr u \<Rightarrow> validateBasicFiltersEach kind rest)"

text \<open>What the specification says the validator looks for: the operators of the column
  filters of a tree, and whether one of them is not basic.\<close>

fun columnOperators :: "Filter \<Rightarrow> column_operator list" where
  "columnOperators (ColumnFilter column operator negate v) = [operator]"
| "columnOperators (LogicalFilter operator negate values) = concat (map columnOperators values)"

definition hasNonBasicOperator :: "Filter \<Rightarrow> bool" where
  "hasNonBasicOperator f = (\<exists>operator \<in> set (columnOperators f). operator \<notin> {Eq, Neq, Gt, Gte, Lt, Lte})"

text \<open>The WHERE block, the same in the two processors. \<open>processWhereClause\<close> (of
  \<open>processor/filter\<close>, not among the sources) is the parameter \<open>pwc\<close>.\<close>

definition relationsOf :: "string \<Rightarrow> Relations" where
  "relationsOf tableName =
     \<lparr> primary = \<lparr> rel_name = tableName, rel_reference = tableName \<rparr>, joined = [] \<rparr>"

definition whereFilter ::
    "string \<Rightarrow> ('w \<Rightarrow> Relations \<Rightarrow> error + Filter) \<Rightarrow> string \<Rightarrow> 'w option \<Rightarrow> error + Filter option" where
  "whereFilter kind pwc tableName whereClause =
     (case whereClause of
        None \<Rightarrow> Inr None
      | Some w \<Rightarrow>
          (case pwc w (relationsOf tableName) of
             Inl e \<Rightarrow> Inl e
           | Inr f \<Rightarrow> (case validateBasicFilters kind f of Inl e \<Rightarrow> Inl e | Inr u \<Rightarrow> Inr (Some f))))"

subsection \<open>UPDATE and DELETE\<close>

fun updateSet :: "list_item list \<Rightarrow> js_object \<Rightarrow> error + js_object" where
  "updateSet [] setClause = Inr setClause"
| "updateSet (target # rest) setClause =
     (case target of
        ResTarget resTarget \<Rightarrow>
          (case rt_name resTarget of
             None \<Rightarrow> Inl (UnsupportedError ''UPDATE SET clause must specify column names'')
           | Some columnName \<Rightarrow>
               if columnName = []
               then Inl (UnsupportedError ''UPDATE SET clause must specify column names'')
               else
                 (case rt_val resTarget of
                    A_Const constValue \<Rightarrow>
                      (case constAtom constValue of
                         Some a \<Rightarrow> updateSet rest (assign setClause columnName (Value a))
                       | None \<Rightarrow> Inl (UnsupportedError ''Unsupported constant type in UPDATE SET clause''))
                  | _ \<Rightarrow>
                      Inl (UnsupportedError
                        ''UPDATE SET clause only supports constant values (no expressions or subqueries)'')))
      | _ \<Rightarrow> Inl (UnsupportedError ''UPDATE SET clause must be simple column assignments''))"

definition processUpdateStatement ::
    "('w \<Rightarrow> Relations \<Rightarrow> error + Filter) \<Rightarrow> 'w update_stmt \<Rightarrow> error + Update" where
  "processUpdateStatement pwc updateStmt =
     (case upd_relation updateStmt of
        None \<Rightarrow> Inl (UnsupportedError ''UPDATE statement must specify a table'')
      | Some relation \<Rightarrow>
     (case upd_targetList updateStmt of
        None \<Rightarrow> Inl (UnsupportedError ''UPDATE statement must have a SET clause'')
      | Some targetList \<Rightarrow>
     (case updateSet targetList emptyObject of
        Inl e \<Rightarrow> Inl e
      | Inr setClause \<Rightarrow>
     (case whereFilter ''UPDATE'' pwc (relname relation) (upd_whereClause updateStmt) of
        Inl e \<Rightarrow> Inl e
      | Inr flt \<Rightarrow>
     (case processReturning (upd_returningList updateStmt) of
        Inl e \<Rightarrow> Inl e
      | Inr returning \<Rightarrow>
          Inr \<lparr> upd_table = relname relation, upd_set = setClause, upd_filter = flt,
                upd_returning = returning \<rparr>)))))"

definition processDeleteStatement ::
    "('w \<Rightarrow> Relations \<Rightarrow> error + Filter) \<Rightarrow> 'w delete_stmt \<Rightarrow> error + Delete" where
  "processDeleteStatement pwc deleteStmt =
     (case del_relation deleteStmt of
        None \<Rightarrow> Inl (UnsupportedError ''DELETE statement must specify a table'')
      | Some relation \<Rightarrow>
     (case whereFilter ''DELETE'' pwc (relname relation) (del_whereClause deleteStmt) of
        Inl e \<Rightarrow> Inl e
      | Inr flt \<Rightarrow>
     (case processReturning (del_returningList deleteStmt) of
        Inl e \<Rightarrow> Inl e
      | Inr returning \<Rightarrow>
          Inr \<lparr> del_from = relname relation, del_filter = flt, del_returning = returning \<rparr>)))"

subsection \<open>The entry point\<close>

text \<open>\<open>stmtType.replace(/Stmt$/, '')\<close>.\<close>

definition stripStmt :: "string \<Rightarrow> string" where
  "stripStmt stmtType =
     (if length stmtType \<ge> 4 \<and> drop (length stmtType - 4) stmtType = ''Stmt''
      then take (length stmtType - 4) stmtType else stmtType)"

text \<open>\<open>processSelectStatement\<close> (of \<open>processor/select\<close>, not among the sources) is the
  parameter \<open>pss\<close>.\<close>

definition processStatement ::
    "('s \<Rightarrow> error + Select) \<Rightarrow> ('w \<Rightarrow> Relations \<Rightarrow> error + Filter) \<Rightarrow> ('s, 'w) Stmt
      \<Rightarrow> error + Statement" where
  "processStatement pss pwc stmt =
     (case stmt of
        SelectStmt s \<Rightarrow> map_sum id SelectStatement (pss s)
      | InsertStmt i \<Rightarrow> map_sum id InsertStatement (processInsertStatement i)
      | UpdateStmt u \<Rightarrow> map_sum id UpdateStatement (processUpdateStatement pwc u)
      | DeleteStmt d \<Rightarrow> map_sum id DeleteStatement (processDeleteStatement pwc d)
      | ExplainStmt \<Rightarrow>
          Inl (UnimplementedError ''Explain statements are not yet implemented by the translator'')
      | OtherStmt stmtType \<Rightarrow>
          Inl (UnsupportedError (stripStmt stmtType @ '' statements are not supported'')))"

text \<open>What the parser throws: an error with a message and, when the SQL does not parse,
  the cursor position.\<close>

record parser_error =
  pe_message :: string
  pe_cursorPosition :: "nat option"

text \<open>
  \<open>processSql\<close>. The parser \<open>parseQuery\<close> (of the package \<open>libpg-query\<close>) and
  \<open>getParsingErrorHint\<close> (of \<open>errors\<close>, not among the sources) are parameters. The
  \<open>catch\<close> turns an error that has a \<open>cursorPosition\<close> into a \<open>ParsingError\<close> and
  throws any other error again; the errors of the processors have no such property.
\<close>

definition processSql ::
    "(string \<Rightarrow> parser_error + ('s, 'w) Stmt list) \<Rightarrow> (string \<Rightarrow> string option)
      \<Rightarrow> ('s \<Rightarrow> error + Select) \<Rightarrow> ('w \<Rightarrow> Relations \<Rightarrow> error + Filter)
      \<Rightarrow> string \<Rightarrow> error + Statement" where
  "processSql parseQuery getParsingErrorHint pss pwc sql =
     (case parseQuery sql of
        Inl err \<Rightarrow>
          (case pe_cursorPosition err of
             Some pos \<Rightarrow> Inl (ParsingError (pe_message err) (getParsingErrorHint (pe_message err)) pos)
           | None \<Rightarrow> Inl (ThrownError (pe_message err)))
      | Inr stmts \<Rightarrow>
          if length stmts = 0
          then Inl (UnsupportedError ''Expected a statement, but received none'')
          else if length stmts > 1
          then Inl (UnsupportedError ''Expected a single statement, but received multiple'')
          else hd (map (processStatement pss pwc) stmts))"

subsection \<open>Definitions used to state the properties\<close>

text \<open>Modelled from the spec: \<open>renderTargets\<close> of \<open>renderers/util\<close>, which is not among
  the sources. Section 4.6 of the specification: targets are joined with commas, an
  embedded resource is \<open>name(child,child)\<close>, an aggregate is \<open>col.agg()\<close>, a cast is the
  suffix \<open>::cast\<close> and an alias the prefix \<open>alias:\<close>. The properties below hold for any
  function in its place; this one serves in their instances.\<close>

fun renderTarget :: "Target \<Rightarrow> string" where
  "renderTarget (ColumnTarget column alias cast) =
     (case alias of Some a \<Rightarrow> a @ '':'' | None \<Rightarrow> [])
       @ column @ (case cast of Some c \<Rightarrow> ''::'' @ c | None \<Rightarrow> [])"
| "renderTarget (ResourceTarget name children) =
     name @ ''('' @ join '','' (map renderTarget children) @ '')''"
| "renderTarget (AggregateTarget function column alias) =
     (case alias of Some a \<Rightarrow> a @ '':'' | None \<Rightarrow> []) @ column @ ''.'' @ function @ ''()''"

definition renderTargets :: "Target list \<Rightarrow> string" where
  "renderTargets targets = join '','' (map renderTarget targets)"

text \<open>The number that a string of decimal digits denotes.\<close>

definition digitValue :: "char \<Rightarrow> nat" where
  "digitValue c = length (takeWhile (\<lambda>d. d \<noteq> c) ''0123456789'')"

definition decimalValue :: "string \<Rightarrow> nat" where
  "decimalValue s = foldl (\<lambda>n c. 10 * n + digitValue c) 0 s"

text \<open>A RETURNING entry that is a column reference with no \<open>String\<close> node among its
  fields, such as the \<open>*\<close> of \<open>RETURNING *\<close>.\<close>

definition hasNoStringField :: "list_item \<Rightarrow> bool" where
  "hasNoStringField item =
     (case item of
        ResTarget target \<Rightarrow>
          (case rt_val target of
             ColumnRef flds \<Rightarrow> list_all (\<lambda>f. case f of String sval \<Rightarrow> False | _ \<Rightarrow> True) flds
           | _ \<Rightarrow> False)
      | _ \<Rightarrow> False)"

section \<open>The filter-root routine flattens the non-negated conjunctions at the root\<close>

lemma renderFilterRoot_rootFilters:
  "renderFilterRoot rf ps f = ps @ map rf (rootFilters f)"
  "renderFilterRootEach rf ps fs = ps @ map rf (concat (map rootFilters fs))"
proof (induction rf ps f and rf ps fs rule: renderFilterRoot_renderFilterRootEach.induct)
  case (1 rf params operator negate "values")
  then show ?case
    by (cases operator; cases negate) (simp_all add: params_append_def)
next
  case (2 rf params column operator negate v)
  then show ?case by (simp add: params_append_def)
next
  case (3 rf params)
  then show ?case by simp
next
  case (4 rf params subFilter rest)
  then show ?case by simp
qed

lemma renderFilterRootEach_concat:
  "renderFilterRootEach rf ps fs = ps @ concat (map (renderFilterRoot rf []) fs)"
proof -
  have "renderFilterRoot rf [] = (\<lambda>f. map rf (rootFilters f))"
    by (rule ext) (simp add: renderFilterRoot_rootFilters(1))
  then show ?thesis
    by (simp add: renderFilterRoot_rootFilters(2) map_concat comp_def)
qed

text \<open>
  Claim C1. Given the parameters \<open>ps\<close> built so far, the routine run on a non-negated
  \<open>and\<close> returns \<open>ps\<close> followed by what the routine itself emits for each child, in
  order; run on a negated \<open>and\<close>, on an \<open>or\<close> (negated or not) or on a column filter it
  returns \<open>ps\<close> followed by the one pair \<open>renderFilter\<close> gives for that filter. Hence, for
  every filter, the pairs appended are those of \<open>rootFilters\<close>: nested non-negated
  \<open>and\<close> children are flattened too.
\<close>

theorem renderFilterRoot_flattens:
  "renderFilterRoot rf ps (LogicalFilter And False children)
     = ps @ concat (map (renderFilterRoot rf []) children)
   \<and> renderFilterRoot rf ps (LogicalFilter And True children)
     = ps @ [rf (LogicalFilter And True children)]
   \<and> renderFilterRoot rf ps (LogicalFilter Or negate children)
     = ps @ [rf (LogicalFilter Or negate children)]
   \<and> renderFilterRoot rf ps (ColumnFilter column operator negate v)
     = ps @ [rf (ColumnFilter column operator negate v)]
   \<and> renderFilterRoot rf ps f = ps @ map rf (rootFilters f)"
proof -
  have "renderFilterRoot rf ps (LogicalFilter And False children)
          = renderFilterRootEach rf ps children"
    by simp
  then have flat: "renderFilterRoot rf ps (LogicalFilter And False children)
          = ps @ concat (map (renderFilterRoot rf []) children)"
    by (simp only: renderFilterRootEach_concat)
  have single: "renderFilterRoot rf ps (LogicalFilter And True children)
          = ps @ [rf (LogicalFilter And True children)]"
      "renderFilterRoot rf ps (LogicalFilter Or negate children)
          = ps @ [rf (LogicalFilter Or negate children)]"
      "renderFilterRoot rf ps (ColumnFilter column operator negate v)
          = ps @ [rf (ColumnFilter column operator negate v)]"
    by (simp_all add: params_append_def)
  from flat single renderFilterRoot_rootFilters(1) [of rf ps f] show ?thesis
    by blast
qed

text \<open>An instance: after \<open>select=id\<close>, a conjunction of a column filter, a nested
  conjunction, a disjunction and a negated conjunction gives five more parameters.\<close>

theorem renderFilterRoot_flattens_witness:
  "renderFilterRoot
     (\<lambda>f. case f of ColumnFilter c operator n v \<Rightarrow> (c, operatorName operator)
          | LogicalFilter operator n vs \<Rightarrow> (''logical'', ''()''))
     [(''select'', ''id'')]
     (LogicalFilter And False
        [ColumnFilter ''a'' Eq False (Single (AInteger 1)),
         LogicalFilter And False [ColumnFilter ''b'' Gt False (Single (AInteger 2)),
                                  ColumnFilter ''c'' Lt True (Single (AInteger 3))],
         LogicalFilter Or False [ColumnFilter ''d'' Eq False (Single ANull)],
         LogicalFilter And True [ColumnFilter ''e'' Eq False (Single ANull)]])
   = [(''select'', ''id''), (''a'', ''eq''), (''b'', ''gt''), (''c'', ''lt''),
      (''logical'', ''()''), (''logical'', ''()'')]"
  using renderFilterRoot_flattens [THEN conjunct2, THEN conjunct2, THEN conjunct2, THEN conjunct2]
  by (simp add: operatorName_def)

section \<open>The full path of a request\<close>

lemma fullPathOf_cases:
  "fullPathOf enc p ps = (if ps = [] then p else p @ ''?'' @ enc ps)"
  by (simp add: fullPathOf_def)

lemma renderHttp_fullPath:
  "fullPath (renderHttp rf rt enc stmt)
     = fullPathOf enc (path (renderHttp rf rt enc stmt)) (params (renderHttp rf rt enc stmt))"
  by (cases stmt)
     (simp_all add: renderHttp_def formatSelect_def formatInsert_def formatUpdate_def
        formatDelete_def Let_def)

text \<open>
  Claim C3. For the request rendered from any statement (SELECT, INSERT, UPDATE or
  DELETE): the path is a prefix of \<open>fullPath\<close>; \<open>fullPath\<close> equals the path exactly when
  there are no parameters; and with parameters \<open>fullPath\<close> is the path, a question mark
  and the encoded parameters.
\<close>

theorem fullPath_of_rendered_request:
  "prefix (path (renderHttp rf rt enc stmt)) (fullPath (renderHttp rf rt enc stmt))
   \<and> (fullPath (renderHttp rf rt enc stmt) = path (renderHttp rf rt enc stmt))
       = (params (renderHttp rf rt enc stmt) = [])
   \<and> fullPath (renderHttp rf rt enc stmt)
       = (if params (renderHttp rf rt enc stmt) = [] then path (renderHttp rf rt enc stmt)
          else path (renderHttp rf rt enc stmt) @ ''?'' @ enc (params (renderHttp rf rt enc stmt)))"
  by (simp add: renderHttp_fullPath fullPathOf_cases)

text \<open>An instance: a DELETE with one filter has the full path \<open>/books?id=eq.1\<close> under
  an encoder that joins \<open>key=value\<close> with \<open>&\<close>, and a DELETE without filter has the
  full path \<open>/books\<close>.\<close>

theorem fullPath_of_rendered_request_witness:
  "fullPath (renderHttp (\<lambda>f. (''id'', ''eq.1'')) renderTargets
       (\<lambda>ps. join ''&'' (map (\<lambda>(k, v). k @ ''='' @ v) ps))
       (DeleteStatement \<lparr> del_from = ''books'',
          del_filter = Some (ColumnFilter ''id'' Eq False (Single (AInteger 1))),
          del_returning = None \<rparr>))
     = ''/books?id=eq.1''
   \<and> fullPath (renderHttp (\<lambda>f. (''id'', ''eq.1'')) renderTargets
       (\<lambda>ps. join ''&'' (map (\<lambda>(k, v). k @ ''='' @ v) ps))
       (DeleteStatement \<lparr> del_from = ''books'', del_filter = None, del_returning = None \<rparr>))
     = ''/books''"
  using fullPath_of_rendered_request [of "\<lambda>f. (''id'', ''eq.1'')" renderTargets
      "\<lambda>ps. join ''&'' (map (\<lambda>(k, v). k @ ''='' @ v) ps)"
      "DeleteStatement \<lparr> del_from = ''books'',
          del_filter = Some (ColumnFilter ''id'' Eq False (Single (AInteger 1))),
          del_returning = None \<rparr>"]
    fullPath_of_rendered_request [of "\<lambda>f. (''id'', ''eq.1'')" renderTargets
      "\<lambda>ps. join ''&'' (map (\<lambda>(k, v). k @ ''='' @ v) ps)"
      "DeleteStatement \<lparr> del_from = ''books'', del_filter = None, del_returning = None \<rparr>"]
  by (simp add: renderHttp_def formatDelete_def returningParam_def filterParams_def
        params_append_def Let_def)

section \<open>The basic-operator validator of UPDATE and DELETE\<close>

lemma allowedOperators_set: "set allowedOperators = {Eq, Neq, Gt, Gte, Lt, Lte}"
  by (simp add: allowedOperators_def)

lemma validateBasicFilters_result:
  "validateBasicFilters kind f
     = (if \<exists>operator \<in> set (columnOperators f). operator \<notin> set allowedOperators
        then Inl (UnsupportedError (basicOperatorsMessage kind)) else Inr ())"
  "validateBasicFiltersEach kind fs
     = (if \<exists>operator \<in> set (concat (map columnOperators fs)). operator \<notin> set allowedOperators
        then Inl (UnsupportedError (basicOperatorsMessage kind)) else Inr ())"
proof (induction kind f and kind fs rule: validateBasicFilters_validateBasicFiltersEach.induct)
  case (1 kind column operator negate v)
  then show ?case by simp
next
  case (2 kind operator negate "values")
  then show ?case by simp
next
  case (3 kind)
  then show ?case by simp
next
  case (4 kind subFilter rest)
  then show ?case by auto
qed

lemma validateBasicFilters_cases:
  "validateBasicFilters kind f
     = (if hasNonBasicOperator f then Inl (UnsupportedError (basicOperatorsMessage kind))
        else Inr ())"
  unfolding hasNonBasicOperator_def allowedOperators_set [symmetric]
  by (rule validateBasicFilters_result(1))

lemma hasNonBasicOperator_logical:
  "hasNonBasicOperator (LogicalFilter operator negate children)
     = (\<exists>child \<in> set children. hasNonBasicOperator child)"
  by (auto simp: hasNonBasicOperator_def)

lemma whereFilter_lowered:
  assumes "pwc w (relationsOf t) = Inr f"
  shows "whereFilter kind pwc t (Some w)
           = (if hasNonBasicOperator f then Inl (UnsupportedError (basicOperatorsMessage kind))
              else Inr (Some f))"
  using assms by (simp add: whereFilter_def validateBasicFilters_cases)

lemma processDeleteStatement_where:
  assumes "del_relation d = Some rel" "del_whereClause d = Some w"
    "pwc w (relationsOf (relname rel)) = Inr f"
  shows "processDeleteStatement pwc d
     = (if hasNonBasicOperator f then Inl (UnsupportedError (basicOperatorsMessage ''DELETE''))
        else case processReturning (del_returningList d) of
               Inl e \<Rightarrow> Inl e
             | Inr returning \<Rightarrow>
                 Inr \<lparr> del_from = relname rel, del_filter = Some f, del_returning = returning \<rparr>)"
  using assms by (simp add: processDeleteStatement_def whereFilter_lowered)

lemma processUpdateStatement_where:
  assumes "upd_relation u = Some rel" "upd_targetList u = Some targetList"
    "updateSet targetList emptyObject = Inr setClause" "upd_whereClause u = Some w"
    "pwc w (relationsOf (relname rel)) = Inr f"
  shows "processUpdateStatement pwc u
     = (if hasNonBasicOperator f then Inl (UnsupportedError (basicOperatorsMessage ''UPDATE''))
        else case processReturning (upd_returningList u) of
               Inl e \<Rightarrow> Inl e
             | Inr returning \<Rightarrow>
                 Inr \<lparr> upd_table = relname rel, upd_set = setClause, upd_filter = Some f,
                       upd_returning = returning \<rparr>)"
  using assms by (simp add: processUpdateStatement_def whereFilter_lowered)

lemma returningColumns_error:
  "returningColumns l = Inl e
     \<Longrightarrow> e = UnsupportedError ''RETURNING clause only supports simple column names''"
  by (induction l arbitrary: e)
     (auto split: list_item.splits node.splits sum.splits option.splits)

lemma processReturning_error:
  "processReturning returningList = Inl e
     \<Longrightarrow> e = UnsupportedError ''RETURNING clause only supports simple column names''"
  by (auto simp: processReturning_def dest: returningColumns_error
        split: option.splits sum.splits)

lemma basicOperatorsMessage_not_returning:
  "basicOperatorsMessage ''DELETE'' \<noteq> ''RETURNING clause only supports simple column names''"
  "basicOperatorsMessage ''UPDATE'' \<noteq> ''RETURNING clause only supports simple column names''"
  by (simp_all add: basicOperatorsMessage_def)

text \<open>
  Claim C2. Let an UPDATE or DELETE statement have a relation (for UPDATE, a SET clause
  the processor accepts) and a WHERE clause that the filter walker lowers to the tree
  \<open>f\<close>, and let the processor accept its RETURNING list. Then processing fails with an
  \<open>UnsupportedError\<close> if and only if \<open>f\<close> contains a column filter whose operator is not
  one of eq, neq, gt, gte, lt, lte, and otherwise it returns the statement with the
  filter \<open>f\<close>. Whatever the RETURNING list, processing fails with the
  \<open>UnsupportedError\<close> of the validator if and only if \<open>f\<close> contains such a column
  filter. The validator itself throws its \<open>UnsupportedError\<close> exactly on such a
  tree and returns otherwise; on a logical filter (\<open>and\<close> or \<open>or\<close>, negated or not) it
  only validates the children, so a logical filter is rejected exactly when one of its
  children is.
\<close>

theorem basic_operator_validation:
  "(validateBasicFilters kind f = Inl (UnsupportedError (basicOperatorsMessage kind)))
     = hasNonBasicOperator f
   \<and> (validateBasicFilters kind f = Inr ()) = (\<not> hasNonBasicOperator f)
   \<and> validateBasicFilters kind (LogicalFilter operator negate children)
     = validateBasicFiltersEach kind children
   \<and> hasNonBasicOperator (LogicalFilter operator negate children)
     = (\<exists>child \<in> set children. hasNonBasicOperator child)
   \<and> (del_relation d = Some rel \<and> del_whereClause d = Some w
        \<and> pwc w (relationsOf (relname rel)) = Inr f
        \<and> processReturning (del_returningList d) = Inr returning
      \<longrightarrow> ((\<exists>message. processDeleteStatement pwc d = Inl (UnsupportedError message))
             = hasNonBasicOperator f)
        \<and> (\<not> hasNonBasicOperator f \<longrightarrow> processDeleteStatement pwc d
             = Inr \<lparr> del_from = relname rel, del_filter = Some f, del_returning = returning \<rparr>))
   \<and> (upd_relation u = Some rel \<and> upd_targetList u = Some targetList
        \<and> updateSet targetList emptyObject = Inr setClause \<and> upd_whereClause u = Some w
        \<and> pwc w (relationsOf (relname rel)) = Inr f
        \<and> processReturning (upd_returningList u) = Inr returning
      \<longrightarrow> ((\<exists>message. processUpdateStatement pwc u = Inl (UnsupportedError message))
             = hasNonBasicOperator f)
        \<and> (\<not> hasNonBasicOperator f \<longrightarrow> processUpdateStatement pwc u
             = Inr \<lparr> upd_table = relname rel, upd_set = setClause, upd_filter = Some f,
                     upd_returning = returning \<rparr>))
   \<and> (del_relation d = Some rel \<and> del_whereClause d = Some w
        \<and> pwc w (relationsOf (relname rel)) = Inr f
      \<longrightarrow> (processDeleteStatement pwc d
              = Inl (UnsupportedError (basicOperatorsMessage ''DELETE'')))
            = hasNonBasicOperator f)
   \<and> (upd_relation u = Some rel \<and> upd_targetList u = Some targetList
        \<and> updateSet targetList emptyObject = Inr setClause \<and> upd_whereClause u = Some w
        \<and> pwc w (relationsOf (relname rel)) = Inr f
      \<longrightarrow> (processUpdateStatement pwc u
              = Inl (UnsupportedError (basicOperatorsMessage ''UPDATE'')))
            = hasNonBasicOperator f)"
proof -
  have v: "(validateBasicFilters kind f = Inl (UnsupportedError (basicOperatorsMessage kind)))
             = hasNonBasicOperator f"
      "(validateBasicFilters kind f = Inr ()) = (\<not> hasNonBasicOperator f)"
    by (simp_all add: validateBasicFilters_cases)
  have l: "validateBasicFilters kind (LogicalFilter operator negate children)
             = validateBasicFiltersEach kind children"
    by simp
  have d: "((\<exists>message. processDeleteStatement pwc d = Inl (UnsupportedError message))
             = hasNonBasicOperator f)
        \<and> (\<not> hasNonBasicOperator f \<longrightarrow> processDeleteStatement pwc d
             = Inr \<lparr> del_from = relname rel, del_filter = Some f, del_returning = returning \<rparr>)"
    if "del_relation d = Some rel" "del_whereClause d = Some w"
       "pwc w (relationsOf (relname rel)) = Inr f"
       "processReturning (del_returningList d) = Inr returning"
    using that by (simp add: processDeleteStatement_where)
  have u: "((\<exists>message. processUpdateStatement pwc u = Inl (UnsupportedError message))
             = hasNonBasicOperator f)
        \<and> (\<not> hasNonBasicOperator f \<longrightarrow> processUpdateStatement pwc u
             = Inr \<lparr> upd_table = relname rel, upd_set = setClause, upd_filter = Some f,
                     upd_returning = returning \<rparr>)"
    if "upd_relation u = Some rel" "upd_targetList u = Some targetList"
       "updateSet targetList emptyObject = Inr setClause" "upd_whereClause u = Some w"
       "pwc w (relationsOf (relname rel)) = Inr f"
       "processReturning (upd_returningList u) = Inr returning"
    using that by (simp add: processUpdateStatement_where)
  have dm: "(processDeleteStatement pwc d
              = Inl (UnsupportedError (basicOperatorsMessage ''DELETE'')))
            = hasNonBasicOperator f"
    if "del_relation d = Some rel" "del_whereClause d = Some w"
       "pwc w (relationsOf (relname rel)) = Inr f"
    using that processReturning_error [of "del_returningList d"]
    by (auto simp: processDeleteStatement_where basicOperatorsMessage_not_returning
          split: sum.splits)
  have um: "(processUpdateStatement pwc u
              = Inl (UnsupportedError (basicOperatorsMessage ''UPDATE'')))
            = hasNonBasicOperator f"
    if "upd_relation u = Some rel" "upd_targetList u = Some targetList"
       "updateSet targetList emptyObject = Inr setClause" "upd_whereClause u = Some w"
       "pwc w (relationsOf (relname rel)) = Inr f"
    using that processReturning_error [of "upd_returningList u"]
    by (auto simp: processUpdateStatement_where basicOperatorsMessage_not_returning
          split: sum.splits)
  from v l d u dm um hasNonBasicOperator_logical [of operator negate children] show ?thesis
    by blast
qed

text \<open>
  An instance, with the WHERE clause given as the tree it lowers to. The DELETE whose
  filter is the negated disjunction \<open>not (id = 1 or year < 2000)\<close> is accepted; the
  UPDATE whose filter is the conjunction of \<open>id = 1\<close> and \<open>title like 'a%'\<close> fails
  with the \<open>UnsupportedError\<close> of the validator.
\<close>

theorem basic_operator_validation_witness:
  "processDeleteStatement (\<lambda>w relations. Inr w)
     \<lparr> del_relation = Some \<lparr> relname = ''books'' \<rparr>,
       del_whereClause = Some (LogicalFilter Or True
          [ColumnFilter ''id'' Eq False (Single (AInteger 1)),
           ColumnFilter ''year'' Lt False (Single (AInteger 2000))]),
       del_returningList = None \<rparr>
   = Inr \<lparr> del_from = ''books'',
          del_filter = Some (LogicalFilter Or True
            [ColumnFilter ''id'' Eq False (Single (AInteger 1)),
             ColumnFilter ''year'' Lt False (Single (AInteger 2000))]),
          del_returning = None \<rparr>
   \<and> processUpdateStatement (\<lambda>w relations. Inr w)
     \<lparr> upd_relation = Some \<lparr> relname = ''books'' \<rparr>,
       upd_targetList = Some [ResTarget \<lparr> rt_name = Some ''year'',
          rt_val = A_Const \<lparr> ac_sval = None, ac_ival = Some (Some 2000), ac_fval = None,
                            ac_boolval = None, ac_Null = False \<rparr> \<rparr>],
       upd_whereClause = Some (LogicalFilter And False
          [ColumnFilter ''id'' Eq False (Single (AInteger 1)),
           ColumnFilter ''title'' Like False (Single (AString ''a%''))]),
       upd_returningList = None \<rparr>
   = Inl (UnsupportedError
       ''UPDATE WHERE clause only supports basic operators: eq, neq, gt, gte, lt, lte'')"
proof -
  let ?pwc = "\<lambda>(w :: Filter) (relations :: Relations). (Inr w :: error + Filter)"
  let ?rel = "\<lparr> relname = ''books'' \<rparr>"
  let ?f = "LogicalFilter Or True
          [ColumnFilter ''id'' Eq False (Single (AInteger 1)),
           ColumnFilter ''year'' Lt False (Single (AInteger 2000))]"
  let ?g = "LogicalFilter And False
          [ColumnFilter ''id'' Eq False (Single (AInteger 1)),
           ColumnFilter ''title'' Like False (Single (AString ''a%''))]"
  let ?tl = "[ResTarget \<lparr> rt_name = Some ''year'',
          rt_val = A_Const \<lparr> ac_sval = None, ac_ival = Some (Some 2000), ac_fval = None,
                            ac_boolval = None, ac_Null = False \<rparr> \<rparr>]"
  let ?d = "\<lparr> del_relation = Some ?rel, del_whereClause = Some ?f, del_returningList = None \<rparr>"
  let ?u = "\<lparr> upd_relation = Some ?rel, upd_targetList = Some ?tl,
       upd_whereClause = Some ?g, upd_returningList = None \<rparr>"
  have basic: "\<not> hasNonBasicOperator ?f"
    by (simp add: hasNonBasicOperator_def)
  have nonbasic: "hasNonBasicOperator ?g"
    by (simp add: hasNonBasicOperator_def)
  have dh: "del_relation ?d = Some ?rel \<and> del_whereClause ?d = Some ?f
      \<and> ?pwc ?f (relationsOf (relname ?rel)) = Inr ?f
      \<and> processReturning (del_returningList ?d) = Inr None"
    by (simp add: processReturning_def)
  have uh: "upd_relation ?u = Some ?rel \<and> upd_targetList ?u = Some ?tl
      \<and> updateSet ?tl emptyObject
          = Inr \<lparr> own = [''year'' \<mapsto> Value (AInteger 2000)], prototype = ObjectPrototype \<rparr>
      \<and> upd_whereClause ?u = Some ?g
      \<and> ?pwc ?g (relationsOf (relname ?rel)) = Inr ?g
      \<and> processReturning (upd_returningList ?u) = Inr None"
    by (simp add: processReturning_def constAtom_def assign_def emptyObject_def)
  note inst = basic_operator_validation [where kind = "''DELETE''" and operator = And
      and negate = False and children = "[]"
      and d = ?d and u = ?u and pwc = ?pwc and rel = ?rel and returning = None]
  note del = inst [where f = ?f and w = ?f and targetList = ?tl
      and setClause = "\<lparr> own = [''year'' \<mapsto> Value (AInteger 2000)],
        prototype = ObjectPrototype \<rparr>",
      THEN conjunct2, THEN conjunct2, THEN conjunct2, THEN conjunct2, THEN conjunct1,
      THEN mp, OF dh, THEN conjunct2, THEN mp, OF basic]
  note upd = inst [where f = ?g and w = ?g and targetList = ?tl
      and setClause = "\<lparr> own = [''year'' \<mapsto> Value (AInteger 2000)],
        prototype = ObjectPrototype \<rparr>",
      THEN conjunct2, THEN conjunct2, THEN conjunct2, THEN conjunct2, THEN conjunct2,
      THEN conjunct1, THEN mp, OF uh, THEN conjunct1, THEN iffD2, OF nonbasic]
  from upd have "processUpdateStatement ?pwc ?u = Inl (UnsupportedError
       ''UPDATE WHERE clause only supports basic operators: eq, neq, gt, gte, lt, lte'')"
    by (simp add: processUpdateStatement_def whereFilter_def constAtom_def
          basicOperatorsMessage_def allowedOperators_def operatorName_def
          assign_def emptyObject_def)
  with del show ?thesis
    by simp
qed

section \<open>The body of an INSERT request\<close>

lemma own_assign_other: "c \<noteq> k \<Longrightarrow> own (assign obj c v) k = own obj k"
  by (simp add: assign_def)

lemma own_assign_same: "k \<noteq> ''__proto__'' \<Longrightarrow> own (assign obj k v) k = Some v"
  by (simp add: assign_def)

lemma own_assign_key: "own (assign obj c v) k \<noteq> None \<Longrightarrow> k = c \<or> own obj k \<noteq> None"
  by (cases "c = k") (simp_all add: own_assign_other)

lemma own_assign_kept:
  "k \<noteq> ''__proto__'' \<Longrightarrow> own obj k \<noteq> None \<Longrightarrow> own (assign obj c v) k \<noteq> None"
  by (cases "c = k") (simp_all add: own_assign_other own_assign_same)

lemma assignColumns_other:
  "k \<notin> set cols \<Longrightarrow> own (assignColumns obj cols index row) k = own obj k"
  by (induction cols arbitrary: obj index) (simp_all add: assign_def)

lemma assignColumns_keys:
  "own (assignColumns obj cols index row) k \<noteq> None \<Longrightarrow> k \<in> set cols \<or> own obj k \<noteq> None"
proof (induction cols arbitrary: obj index)
  case Nil
  then show ?case by simp
next
  case (Cons col rest)
  from Cons.prems
  have "own (assignColumns (assign obj col (at row index)) rest (Suc index) row) k \<noteq> None"
    by simp
  then have "k \<in> set rest \<or> own (assign obj col (at row index)) k \<noteq> None"
    by (rule Cons.IH)
  then show ?case
    using own_assign_key [of obj col "at row index" k] by auto
qed

lemma assignColumns_present:
  "k \<noteq> ''__proto__'' \<Longrightarrow> k \<in> set cols \<or> own obj k \<noteq> None
     \<Longrightarrow> own (assignColumns obj cols index row) k \<noteq> None"
proof (induction cols arbitrary: obj index)
  case Nil
  then show ?case by simp
next
  case (Cons col rest)
  have "k \<in> set rest \<or> own (assign obj col (at row index)) k \<noteq> None"
  proof (cases "k = col")
    case True
    with Cons.prems(1) show ?thesis by (simp add: own_assign_same)
  next
    case False
    with Cons.prems show ?thesis by (auto simp: own_assign_other)
  qed
  with Cons.prems(1)
  have "own (assignColumns (assign obj col (at row index)) rest (Suc index) row) k \<noteq> None"
    by (rule Cons.IH)
  then show ?case by simp
qed

lemma assignColumns_last:
  "i < length cols \<Longrightarrow> cols ! i \<noteq> ''__proto__''
     \<Longrightarrow> \<forall>j. i < j \<and> j < length cols \<longrightarrow> cols ! j \<noteq> cols ! i
     \<Longrightarrow> own (assignColumns obj cols index row) (cols ! i) = Some (at row (index + i))"
proof (induction cols arbitrary: obj index i)
  case Nil
  then show ?case by simp
next
  case (Cons col rest)
  show ?case
  proof (cases i)
    case 0
    have "col \<notin> set rest"
    proof
      assume "col \<in> set rest"
      then obtain j where "j < length rest" "rest ! j = col"
        by (auto simp: in_set_conv_nth)
      with Cons.prems(3) 0 show False
        by (auto dest: spec [of _ "Suc j"])
    qed
    then have "own (assignColumns (assign obj col (at row index)) rest (Suc index) row) col
        = own (assign obj col (at row index)) col"
      by (rule assignColumns_other)
    with 0 Cons.prems(2) show ?thesis
      by (simp add: own_assign_same)
  next
    case (Suc i')
    with Cons.prems have "i' < length rest" "rest ! i' \<noteq> ''__proto__''"
      by simp_all
    moreover have "\<forall>j. i' < j \<and> j < length rest \<longrightarrow> rest ! j \<noteq> rest ! i'"
    proof (intro allI impI)
      fix j
      assume "i' < j \<and> j < length rest"
      with Cons.prems(3) Suc show "rest ! j \<noteq> rest ! i'"
        by (auto dest: spec [of _ "Suc j"])
    qed
    ultimately
    have "own (assignColumns (assign obj col (at row index)) rest (Suc index) row) (rest ! i')
        = Some (at row (Suc index + i'))"
      by (rule Cons.IH)
    with Suc show ?thesis by simp
  qed
qed

lemma insert_request:
  "request_method (renderHttp rf rt enc (InsertStatement ins)) = POST"
  "body (renderHttp rf rt enc (InsertStatement ins)) = Some (insertBody ins)"
  by (simp_all add: renderHttp_def formatInsert_def Let_def)

lemma insertBody_cases:
  "ins_values ins = [row] \<Longrightarrow> insertBody ins = ObjectBody (rowObject (ins_columns ins) row)"
  "length (ins_values ins) > 1
     \<Longrightarrow> insertBody ins = ArrayBody (map (rowObject (ins_columns ins)) (ins_values ins))"
  by (simp_all add: insertBody_def Let_def)

text \<open>
  Claim C4, as the code has it. The request rendered from an INSERT is a POST. When
  \<open>values\<close> is exactly one row, the body is the single object of that row; when
  \<open>values\<close> has more than one row, the body is the array of the objects of the rows, in
  order. Every key of the object of a row is a column name, and every column name other
  than \<open>__proto__\<close> is a key. The value under such a name is what the row has at the
  last position of the name in the column list: the scalar there, or \<open>undefined\<close> when
  the row is shorter. (Nothing is said here of the column name \<open>__proto__\<close>.)
\<close>

theorem insert_body_object_or_array:
  "request_method (renderHttp rf rt enc (InsertStatement ins)) = POST
   \<and> body (renderHttp rf rt enc (InsertStatement ins)) = Some (insertBody ins)
   \<and> (\<forall>row. ins_values ins = [row] \<longrightarrow>
         insertBody ins = ObjectBody (rowObject (ins_columns ins) row))
   \<and> (length (ins_values ins) > 1 \<longrightarrow>
         insertBody ins = ArrayBody (map (rowObject (ins_columns ins)) (ins_values ins)))
   \<and> (own (rowObject cols r) k \<noteq> None \<longrightarrow> k \<in> set cols)
   \<and> (k \<in> set cols \<and> k \<noteq> ''__proto__'' \<longrightarrow> own (rowObject cols r) k \<noteq> None)
   \<and> (i < length cols \<and> cols ! i \<noteq> ''__proto__''
        \<and> (\<forall>j. i < j \<and> j < length cols \<longrightarrow> cols ! j \<noteq> cols ! i)
      \<longrightarrow> own (rowObject cols r) (cols ! i)
            = Some (if i < length r then Value (r ! i) else Undefined))"
proof -
  have keys: "own (rowObject cols r) k \<noteq> None \<longrightarrow> k \<in> set cols"
    using assignColumns_keys [of emptyObject cols 0 r k]
    by (auto simp: rowObject_def emptyObject_def)
  have present: "k \<in> set cols \<and> k \<noteq> ''__proto__'' \<longrightarrow> own (rowObject cols r) k \<noteq> None"
    using assignColumns_present [of k cols emptyObject 0 r]
    by (auto simp: rowObject_def)
  have last: "own (rowObject cols r) (cols ! i)
            = Some (if i < length r then Value (r ! i) else Undefined)"
    if "i < length cols" "cols ! i \<noteq> ''__proto__''"
       "\<forall>j. i < j \<and> j < length cols \<longrightarrow> cols ! j \<noteq> cols ! i"
    using assignColumns_last [OF that, of emptyObject 0 r]
    by (simp add: rowObject_def at_def)
  from keys present last insert_request [of rf rt enc ins] insertBody_cases [of ins]
  show ?thesis
    by blast
qed

text \<open>An instance: one row gives an object, two rows give an array of two objects, and
  the object of the row \<open>('X', 1999)\<close> for the columns title, year has 1999 under
  \<open>year\<close>.\<close>

theorem insert_body_object_or_array_witness:
  "body (renderHttp (\<lambda>f. ([], [])) renderTargets (\<lambda>ps. []) (InsertStatement
      \<lparr> ins_into = ''books'', ins_columns = [''title'', ''year''],
        ins_values = [[AString ''X'', AInteger 1999]], ins_returning = None \<rparr>))
     = Some (ObjectBody
         \<lparr> own = [''title'' \<mapsto> Value (AString ''X''), ''year'' \<mapsto> Value (AInteger 1999)],
           prototype = ObjectPrototype \<rparr>)
   \<and> body (renderHttp (\<lambda>f. ([], [])) renderTargets (\<lambda>ps. []) (InsertStatement
      \<lparr> ins_into = ''books'', ins_columns = [''title'', ''year''],
        ins_values = [[AString ''X'', AInteger 1999], [AString ''Y'', AInteger 2001]],
        ins_returning = Some [''id''] \<rparr>))
     = Some (ArrayBody
         [\<lparr> own = [''title'' \<mapsto> Value (AString ''X''), ''year'' \<mapsto> Value (AInteger 1999)],
            prototype = ObjectPrototype \<rparr>,
          \<lparr> own = [''title'' \<mapsto> Value (AString ''Y''), ''year'' \<mapsto> Value (AInteger 2001)],
            prototype = ObjectPrototype \<rparr>])
   \<and> own (rowObject [''title'', ''year''] [AString ''X'', AInteger 1999]) ''year''
     = Some (Value (AInteger 1999))"
proof -
  let ?one = "\<lparr> ins_into = ''books'', ins_columns = [''title'', ''year''],
        ins_values = [[AString ''X'', AInteger 1999]], ins_returning = None \<rparr>"
  let ?two = "\<lparr> ins_into = ''books'', ins_columns = [''title'', ''year''],
        ins_values = [[AString ''X'', AInteger 1999], [AString ''Y'', AInteger 2001]],
        ins_returning = Some [''id''] \<rparr>"
  note a = insert_body_object_or_array [where rf = "\<lambda>f. ([], [])" and rt = renderTargets
      and enc = "\<lambda>ps. []" and ins = ?one and cols = "[''title'', ''year'']"
      and r = "[AString ''X'', AInteger 1999]" and k = "''year''" and i = 1]
  note b = insert_body_object_or_array [where rf = "\<lambda>f. ([], [])" and rt = renderTargets
      and enc = "\<lambda>ps. []" and ins = ?two and cols = "[''title'', ''year'']"
      and r = "[AString ''X'', AInteger 1999]" and k = "''year''" and i = 1]
  have rows: "rowObject [''title'', ''year''] [AString ''X'', AInteger 1999]
        = \<lparr> own = [''title'' \<mapsto> Value (AString ''X''), ''year'' \<mapsto> Value (AInteger 1999)],
            prototype = ObjectPrototype \<rparr>"
      "rowObject [''title'', ''year''] [AString ''Y'', AInteger 2001]
        = \<lparr> own = [''title'' \<mapsto> Value (AString ''Y''), ''year'' \<mapsto> Value (AInteger 2001)],
            prototype = ObjectPrototype \<rparr>"
    by (simp_all add: rowObject_def emptyObject_def assign_def at_def)
  from a have "body (renderHttp (\<lambda>f. ([], [])) renderTargets (\<lambda>ps. []) (InsertStatement ?one))
      = Some (ObjectBody (rowObject [''title'', ''year''] [AString ''X'', AInteger 1999]))"
    by simp
  moreover
  from b have "body (renderHttp (\<lambda>f. ([], [])) renderTargets (\<lambda>ps. []) (InsertStatement ?two))
      = Some (ArrayBody [rowObject [''title'', ''year''] [AString ''X'', AInteger 1999],
                         rowObject [''title'', ''year''] [AString ''Y'', AInteger 2001]])"
    by simp
  moreover
  from a have "own (rowObject [''title'', ''year''] [AString ''X'', AInteger 1999]) ''year''
      = Some (Value (AInteger 1999))"
    by simp
  ultimately show ?thesis
    by (simp only: rows)
qed

text \<open>
  The claim as stated fails: the object of a row does not map every column name to a
  scalar. The code stores \<open>row[index]\<close> whatever the length of the row, so the INSERT
  with the columns \<open>a\<close>, \<open>b\<close> and the one-value row \<open>(1)\<close> has a body in which \<open>b\<close> is
  \<open>undefined\<close>. And the assignment to the key \<open>__proto__\<close> of a plain object stores
  nothing, so the INSERT with the columns \<open>__proto__\<close>, \<open>b\<close> and the row \<open>('x', 2)\<close>
  has a body with the one key \<open>b\<close>.
\<close>

theorem insert_body_counterexample:
  "insertBody \<lparr> ins_into = ''t'', ins_columns = [''a'', ''b''],
       ins_values = [[AInteger 1]], ins_returning = None \<rparr>
     = ObjectBody \<lparr> own = [''a'' \<mapsto> Value (AInteger 1), ''b'' \<mapsto> Undefined],
                    prototype = ObjectPrototype \<rparr>
   \<and> insertBody \<lparr> ins_into = ''t'', ins_columns = [''__proto__'', ''b''],
       ins_values = [[AString ''x'', AInteger 2]], ins_returning = None \<rparr>
     = ObjectBody \<lparr> own = [''b'' \<mapsto> Value (AInteger 2)], prototype = ObjectPrototype \<rparr>"
  by (simp add: insertBody_def rowObject_def emptyObject_def assign_def at_def)


section \<open>The \<open>select\<close> parameter of a SELECT request\<close>

lemma formatSelect_params:
  "params (formatSelect rf rt enc sel)
     = limitParams (sel_limit sel) (orderParam (sel_sorts sel)
         (filterParams rf (sel_filter sel) (selectParam rt (sel_targets sel) [])))"
  by (simp add: formatSelect_def Let_def)

lemma selectParam_empty:
  "selectParam rt targets []
     = (if targets = [] \<or> (\<exists>alias cast. targets = [ColumnTarget ''*'' alias cast]) then []
        else [(''select'', rt targets)])"
proof (cases targets)
  case Nil
  then show ?thesis by (simp add: selectParam_def)
next
  case (Cons t ts)
  then show ?thesis
    by (cases t; cases ts) (auto simp: selectParam_def isSelectStar_def)
qed

text \<open>
  Claim C5, as the code has it. \<open>formatSelect\<close> starts from no parameters and its first
  block adds nothing exactly when \<open>targets\<close> is empty or is a one-element list whose
  element is a column target with the column \<open>*\<close>, whatever its alias and cast;
  otherwise the block adds the one parameter \<open>select\<close> with the rendered targets. The
  later blocks (filter, order, limit) work on the result. In particular the SELECT of
  \<open>select * from books\<close> renders as GET \<open>/books\<close> with no parameters.
\<close>

theorem select_param_omitted:
  "selectParam rt targets []
     = (if targets = [] \<or> (\<exists>alias cast. targets = [ColumnTarget ''*'' alias cast]) then []
        else [(''select'', rt targets)])
   \<and> (selectParam rt targets [] = [])
     = (targets = [] \<or> (\<exists>alias cast. targets = [ColumnTarget ''*'' alias cast]))
   \<and> params (renderHttp rf rt enc (SelectStatement sel))
     = limitParams (sel_limit sel) (orderParam (sel_sorts sel)
         (filterParams rf (sel_filter sel) (selectParam rt (sel_targets sel) [])))
   \<and> renderHttp rf rt enc (SelectStatement
         \<lparr> sel_from = ''books'', sel_targets = [ColumnTarget ''*'' None None],
           sel_filter = None, sel_sorts = None, sel_limit = None \<rparr>)
     = \<lparr> request_method = GET, path = ''/books'', params = [], body = None,
         fullPath = ''/books'' \<rparr>"
proof -
  have "renderHttp rf rt enc (SelectStatement
         \<lparr> sel_from = ''books'', sel_targets = [ColumnTarget ''*'' None None],
           sel_filter = None, sel_sorts = None, sel_limit = None \<rparr>)
     = \<lparr> request_method = GET, path = ''/books'', params = [], body = None,
         fullPath = ''/books'' \<rparr>"
    by (simp add: renderHttp_def formatSelect_def selectParam_def isSelectStar_def
          filterParams_def orderParam_def limitParams_def fullPathOf_def Let_def)
  then show ?thesis
    by (simp add: selectParam_empty renderHttp_def formatSelect_params)
qed

text \<open>An instance: two column targets give \<open>select=title,author\<close>, and a lone \<open>*\<close>
  with the cast \<open>text\<close> gives no parameter.\<close>

theorem select_param_omitted_witness:
  "selectParam renderTargets [ColumnTarget ''title'' None None, ColumnTarget ''author'' None None] []
     = [(''select'', ''title,author'')]
   \<and> selectParam renderTargets [ColumnTarget ''*'' None (Some ''text'')] [] = []"
  using select_param_omitted [of renderTargets
      "[ColumnTarget ''title'' None None, ColumnTarget ''author'' None None]"]
    select_param_omitted [of renderTargets "[ColumnTarget ''*'' None (Some ''text'')]"]
  by (simp add: renderTargets_def)

text \<open>
  The claim as stated fails. It says that the parameter is omitted if and only if
  \<open>targets\<close> is the one-element list of the column target \<open>*\<close> without alias and without
  cast. The code tests the type and the column of the first target and the length of
  the list only: a lone \<open>*\<close> with the alias \<open>b\<close> (which would render as \<open>b:*\<close>) gets no
  \<open>select\<close> parameter, and neither does an empty list of targets.
\<close>

theorem select_param_counterexample:
  "\<not> ((selectParam renderTargets [ColumnTarget ''*'' (Some ''b'') None] [] = [])
        = ([ColumnTarget ''*'' (Some ''b'') None] = [ColumnTarget ''*'' None None]))
   \<and> renderTargets [ColumnTarget ''*'' (Some ''b'') None] = ''b:*''
   \<and> \<not> ((selectParam renderTargets [] [] = [])
        = (([] :: Target list) = [ColumnTarget ''*'' None None]))"
  by (simp add: selectParam_def isSelectStar_def renderTargets_def)

section \<open>One statement per SQL text\<close>

lemma processSql_cases:
  assumes "parseQuery sql = Inr stmts"
  shows "processSql parseQuery hint pss pwc sql
     = (case stmts of
          [] \<Rightarrow> Inl (UnsupportedError ''Expected a statement, but received none'')
        | [stmt] \<Rightarrow> processStatement pss pwc stmt
        | _ \<Rightarrow> Inl (UnsupportedError ''Expected a single statement, but received multiple''))"
  using assms by (auto simp: processSql_def split: list.splits)

text \<open>
  Claim C6. When the parser returns a list of statements for the SQL text,
  \<open>processSql\<close> fails with \<open>UnsupportedError\<close> and the message "Expected a statement, but
  received none" on the empty list, with \<open>UnsupportedError\<close> and the message "Expected a
  single statement, but received multiple" on a list of more than one statement, and
  otherwise gives what \<open>processStatement\<close> gives for the single statement.
\<close>

theorem processSql_single_statement:
  "parseQuery sql = Inr stmts \<longrightarrow>
     (stmts = [] \<longrightarrow> processSql parseQuery hint pss pwc sql
        = Inl (UnsupportedError ''Expected a statement, but received none''))
   \<and> (length stmts > 1 \<longrightarrow> processSql parseQuery hint pss pwc sql
        = Inl (UnsupportedError ''Expected a single statement, but received multiple''))
   \<and> (\<forall>stmt. stmts = [stmt] \<longrightarrow> processSql parseQuery hint pss pwc sql
        = processStatement pss pwc stmt)"
  by (auto simp: processSql_cases split: list.splits)

text \<open>An instance for each case: a parser that returns no statement, one that returns
  two, and one that returns the single statement of an unsupported kind.\<close>

theorem processSql_single_statement_witness:
  "processSql (\<lambda>sql. Inr []) (\<lambda>m. None) (\<lambda>s :: unit. Inl (UnsupportedError []))
       (\<lambda>(w :: unit) r. Inl (UnsupportedError [])) ''''
     = Inl (UnsupportedError ''Expected a statement, but received none'')
   \<and> processSql (\<lambda>sql. Inr [ExplainStmt, ExplainStmt]) (\<lambda>m. None)
       (\<lambda>s :: unit. Inl (UnsupportedError [])) (\<lambda>(w :: unit) r. Inl (UnsupportedError []))
       ''explain select 1; explain select 2''
     = Inl (UnsupportedError ''Expected a single statement, but received multiple'')
   \<and> processSql (\<lambda>sql. Inr [OtherStmt ''CreateStmt'']) (\<lambda>m. None)
       (\<lambda>s :: unit. Inl (UnsupportedError [])) (\<lambda>(w :: unit) r. Inl (UnsupportedError []))
       ''create table t (id int)''
     = Inl (UnsupportedError ''Create statements are not supported'')"
  using processSql_single_statement [of "\<lambda>sql. Inr []" "''''" "[]" "\<lambda>m. None"
      "\<lambda>s :: unit. Inl (UnsupportedError [])" "\<lambda>(w :: unit) r. Inl (UnsupportedError [])"]
    processSql_single_statement [of "\<lambda>sql. Inr [ExplainStmt, ExplainStmt]"
      "''explain select 1; explain select 2''" "[ExplainStmt, ExplainStmt]" "\<lambda>m. None"
      "\<lambda>s :: unit. Inl (UnsupportedError [])" "\<lambda>(w :: unit) r. Inl (UnsupportedError [])"]
    processSql_single_statement [of "\<lambda>sql. Inr [OtherStmt ''CreateStmt'']"
      "''create table t (id int)''" "[OtherStmt ''CreateStmt'']" "\<lambda>m. None"
      "\<lambda>s :: unit. Inl (UnsupportedError [])" "\<lambda>(w :: unit) r. Inl (UnsupportedError [])"]
  by (simp add: processStatement_def stripStmt_def)

section \<open>LIMIT and OFFSET\<close>

lemma params_getAll_set_same: "params_getAll k (params_set k v ps) = [v]"
  by (induction ps) (auto simp: params_getAll_def filter_empty_conv)

lemma params_getAll_set_other:
  assumes "k \<noteq> k'"
  shows "params_getAll k (params_set k' v ps) = params_getAll k ps"
proof (induction ps)
  case Nil
  from assms show ?case by (simp add: params_getAll_def)
next
  case (Cons p ps)
  have "(fst q \<noteq> k' \<and> fst q = k) = (fst q = k)" for q :: "string \<times> string"
    using assms by auto
  with Cons assms show ?case
    by (auto simp: params_getAll_def)
qed

lemma digit_cases:
  "(d :: nat) < 10 \<Longrightarrow> d = 0 \<or> d = 1 \<or> d = 2 \<or> d = 3 \<or> d = 4 \<or> d = 5 \<or> d = 6 \<or> d = 7
     \<or> d = 8 \<or> d = 9"
  by arith

lemma digitValue_digit: "d < 10 \<Longrightarrow> digitValue (digit d) = d"
  by (drule digit_cases) (auto simp: digit_def digitValue_def)

lemma digit_is_digit: "d < 10 \<Longrightarrow> digit d \<in> set ''0123456789''"
  unfolding digit_def by (rule nth_mem) simp

lemma digit_zero: "d < 10 \<Longrightarrow> (digit d = CHR ''0'') = (d = 0)"
  by (drule digit_cases) (auto simp: digit_def)

lemma decimalValue_snoc: "decimalValue (s @ [c]) = 10 * decimalValue s + digitValue c"
  by (simp add: decimalValue_def)

lemma natToString_not_Nil: "natToString n \<noteq> []"
  by (subst natToString.simps) simp

lemma natToString_digit: "n < 10 \<Longrightarrow> natToString n = [digit n]"
  by (subst natToString.simps) simp

lemma natToString_more:
  "\<not> n < 10 \<Longrightarrow> natToString n = natToString (n div 10) @ [digit (n mod 10)]"
  by (subst natToString.simps) simp

lemma decimalValue_natToString: "decimalValue (natToString n) = n"
proof (induction n rule: natToString.induct)
  case (1 n)
  show ?case
  proof (cases "n < 10")
    case True
    then have "natToString n = [digit n]"
      by (subst natToString.simps) simp
    with True show ?thesis
      by (simp add: decimalValue_def digitValue_digit)
  next
    case False
    then have "natToString n = natToString (n div 10) @ [digit (n mod 10)]"
      by (subst natToString.simps) simp
    with False "1.IH" show ?thesis
      by (simp add: decimalValue_snoc digitValue_digit)
  qed
qed

lemma natToString_digits: "set (natToString n) \<subseteq> set ''0123456789''"
proof (induction n rule: natToString.induct)
  case (1 n)
  show ?case
  proof (cases "n < 10")
    case True
    then have "natToString n = [digit n]"
      by (subst natToString.simps) simp
    with True digit_is_digit [of n] show ?thesis
      by simp
  next
    case False
    then have "natToString n = natToString (n div 10) @ [digit (n mod 10)]"
      by (subst natToString.simps) simp
    with False "1.IH" digit_is_digit [of "n mod 10"] show ?thesis
      by simp
  qed
qed

lemma natToString_leading_zero: "(hd (natToString n) = CHR ''0'') = (n = 0)"
proof (induction n rule: natToString.induct)
  case (1 n)
  show ?case
  proof (cases "n < 10")
    case True
    then have "natToString n = [digit n]"
      by (subst natToString.simps) simp
    with True show ?thesis
      by (simp add: digit_zero)
  next
    case False
    then have "natToString n = natToString (n div 10) @ [digit (n mod 10)]"
      by (subst natToString.simps) simp
    moreover from False have "n div 10 \<noteq> 0" by simp
    ultimately show ?thesis
      using False "1.IH" by (simp add: natToString_not_Nil)
  qed
qed

lemma limitParams_limit:
  "count l = Some n \<Longrightarrow> params_getAll ''limit'' (limitParams (Some l) ps) = [numberToString n]"
  by (cases "offset l")
     (simp_all add: limitParams_def Let_def params_getAll_set_same params_getAll_set_other)

lemma limitParams_offset:
  "offset l = Some m \<Longrightarrow> params_getAll ''offset'' (limitParams (Some l) ps) = [numberToString m]"
  by (simp add: limitParams_def Let_def params_getAll_set_same)

text \<open>
  Claim C7. For a SELECT with a limit: when the count is defined, the parameters of the
  request hold exactly one \<open>limit\<close>, whose value is the text of the count; when the
  offset is defined, they hold exactly one \<open>offset\<close>, whose value is the text of the
  offset. The text of a non-negative safe integer is its decimal numeral: a string of
  decimal digits that denotes the integer and starts with \<open>0\<close> only for 0 (that of a
  negative one is the numeral of its magnitude after a minus sign). In particular 0 is
  written \<open>0\<close>, so a count or an offset of 0 is emitted as \<open>limit=0\<close> or \<open>offset=0\<close>.
\<close>

theorem limit_and_offset_emitted:
  "(sel_limit sel = Some l \<and> count l = Some n
      \<longrightarrow> params_getAll ''limit'' (params (renderHttp rf rt enc (SelectStatement sel)))
            = [numberToString n])
   \<and> (sel_limit sel = Some l \<and> offset l = Some m
      \<longrightarrow> params_getAll ''offset'' (params (renderHttp rf rt enc (SelectStatement sel)))
            = [numberToString m])
   \<and> decimalValue (numberToString (SafeInteger False k)) = unat k
   \<and> set (numberToString (SafeInteger False k)) \<subseteq> set ''0123456789''
   \<and> (hd (numberToString (SafeInteger False k)) = CHR ''0'') = (k = 0)
   \<and> numberToString (SafeInteger True k)
     = (if k = 0 then ''0'' else CHR ''-'' # numberToString (SafeInteger False k))
   \<and> numberToString (SafeInteger False 0) = ''0''"
proof -
  have emitted:
    "sel_limit sel = Some l \<and> count l = Some n
      \<longrightarrow> params_getAll ''limit'' (params (renderHttp rf rt enc (SelectStatement sel)))
            = [numberToString n]"
    "sel_limit sel = Some l \<and> offset l = Some m
      \<longrightarrow> params_getAll ''offset'' (params (renderHttp rf rt enc (SelectStatement sel)))
            = [numberToString m]"
    by (simp_all add: renderHttp_def formatSelect_params limitParams_limit limitParams_offset)
  have written: "numberToString (SafeInteger False k) = natToString (unat k)"
    by (simp add: numberToString_def)
  have zero: "(hd (natToString (unat k)) = CHR ''0'') = (k = 0)"
    by (simp add: natToString_leading_zero unat_eq_0)
  have negative: "numberToString (SafeInteger True k)
     = (if k = 0 then ''0'' else CHR ''-'' # numberToString (SafeInteger False k))"
    by (simp add: numberToString_def natToString_digit digit_def)
  have "numberToString (SafeInteger False 0) = ''0''"
    by (simp add: numberToString_def natToString_digit digit_def)
  with emitted negative zero show ?thesis
    by (simp only: written decimalValue_natToString natToString_digits simp_thms)
qed

text \<open>An instance: \<open>select * from books limit 10 offset 20\<close> has the two parameters
  \<open>limit=10\<close> and \<open>offset=20\<close>, and with \<open>limit 0 offset 0\<close> it has \<open>limit=0\<close> and
  \<open>offset=0\<close>.\<close>

theorem limit_and_offset_emitted_witness:
  "params (renderHttp (\<lambda>f. ([], [])) renderTargets (\<lambda>ps. [])
     (SelectStatement \<lparr> sel_from = ''books'', sel_targets = [ColumnTarget ''*'' None None],
        sel_filter = None, sel_sorts = None,
        sel_limit = Some \<lparr> count = Some (SafeInteger False 10),
                           offset = Some (SafeInteger False 20) \<rparr> \<rparr>))
   = [(''limit'', ''10''), (''offset'', ''20'')]
   \<and> params (renderHttp (\<lambda>f. ([], [])) renderTargets (\<lambda>ps. [])
     (SelectStatement \<lparr> sel_from = ''books'', sel_targets = [ColumnTarget ''*'' None None],
        sel_filter = None, sel_sorts = None,
        sel_limit = Some \<lparr> count = Some (SafeInteger False 0),
                           offset = Some (SafeInteger False 0) \<rparr> \<rparr>))
   = [(''limit'', ''0''), (''offset'', ''0'')]"
proof -
  let ?sel = "\<lambda>c off. \<lparr> sel_from = ''books'', sel_targets = [ColumnTarget ''*'' None None],
        sel_filter = None, sel_sorts = None,
        sel_limit = Some \<lparr> count = Some (SafeInteger False c),
                           offset = Some (SafeInteger False off) \<rparr> \<rparr>"
  have shape: "params (renderHttp (\<lambda>f. ([], [])) renderTargets (\<lambda>ps. [])
        (SelectStatement (?sel c off)))
      = [(''limit'', numberToString (SafeInteger False c)),
         (''offset'', numberToString (SafeInteger False off))]" for c off
    by (simp add: renderHttp_def formatSelect_params limitParams_def selectParam_def
          isSelectStar_def filterParams_def orderParam_def Let_def)
  have texts: "numberToString (SafeInteger False 10) = ''10''"
      "numberToString (SafeInteger False 20) = ''20''"
    by (simp_all add: numberToString_def natToString_digit natToString_more digit_def)
  note zero = limit_and_offset_emitted [where sel = "?sel 0 0"
      and l = "\<lparr> count = Some (SafeInteger False 0), offset = Some (SafeInteger False 0) \<rparr>"
      and n = "SafeInteger False 0" and m = "SafeInteger False 0" and k = 0
      and rf = "\<lambda>f. ([], [])" and rt = renderTargets and enc = "\<lambda>ps. []"]
  from zero have "numberToString (SafeInteger False 0) = ''0''"
    by simp
  with shape [of 10 20] shape [of 0 0] texts show ?thesis
    by simp
qed


section \<open>RETURNING\<close>

lemma split_not_Nil: "split c s \<noteq> []"
  by (induction s) auto

lemma split_only_separators:
  "set s \<subseteq> {c} \<Longrightarrow> set (split c s) \<subseteq> {[]}"
  by (induction s) auto

lemma join_of_empty_pieces:
  "set xs \<subseteq> {[]} \<Longrightarrow> set (join sep xs) \<subseteq> set sep"
  by (induction sep xs rule: join.induct) auto

lemma split_join_pieces:
  assumes "xs \<noteq> []" "\<forall>x \<in> set xs. c \<notin> set x"
  shows "split c (join [c] xs) = xs"
  using assms
proof (induction "[c]" xs rule: join.induct)
  case 1
  then show ?case by simp
next
  case (2 x)
  then have "c \<notin> set x" by simp
  then have "split c x = [x]" by (induction x) auto
  then show ?case by simp
next
  case (3 x y zs)
  then have IH: "split c (join [c] (y # zs)) = y # zs" by simp
  from 3 have "c \<notin> set x" by simp
  then have "split c (x @ c # s) = x # split c s" for s
    by (induction x) (auto simp: split_not_Nil)
  then show ?case using IH by simp
qed

text \<open>Where no segment of a column reference holds a dot, the name kept is the text of
  the last segment.\<close>

lemma returningColumnName_dot_free:
  assumes "flds \<noteq> []" "\<forall>f \<in> set flds. \<exists>s. f = String s \<and> CHR ''.'' \<notin> set s"
  shows "returningColumnName flds = Some (fieldText (last flds))"
proof -
  have "\<forall>x \<in> set (map fieldText flds). CHR ''.'' \<notin> set x"
    using assms(2) by (auto simp: fieldText_def)
  then have "split (CHR ''.'') (join ''.'' (map fieldText flds)) = map fieldText flds"
    using assms(1) split_join_pieces [of "map fieldText flds" "CHR ''.''"] by simp
  then show ?thesis
    using assms(1) by (simp add: returningColumnName_def pop_def last_map)
qed

lemma returningColumnName_no_String:
  assumes "\<forall>s. String s \<notin> set flds"
  shows "returningColumnName flds = Some []"
proof -
  have "fieldText f = []" if "f \<in> set flds" for f
  proof (cases f)
    case (String s)
    with that assms show ?thesis by blast
  next
    case A_Star
    then show ?thesis by (simp add: fieldText_def)
  qed
  then have "set (map fieldText flds) \<subseteq> {[]}"
    by auto
  then have "set (join ''.'' (map fieldText flds)) \<subseteq> {CHR ''.''}"
    using join_of_empty_pieces [of "map fieldText flds" "''.''"] by simp
  then have "set (split (CHR ''.'') (join ''.'' (map fieldText flds))) \<subseteq> {[]}"
    by (rule split_only_separators)
  moreover have "last (split (CHR ''.'') (join ''.'' (map fieldText flds)))
      \<in> set (split (CHR ''.'') (join ''.'' (map fieldText flds)))"
    by (simp add: split_not_Nil)
  ultimately have "last (split (CHR ''.'') (join ''.'' (map fieldText flds))) = []"
    by blast
  then show ?thesis
    by (simp add: returningColumnName_def pop_def split_not_Nil)
qed

lemma hasNoStringField_cases:
  assumes "hasNoStringField item"
  obtains target flds where "item = ResTarget target" "rt_val target = ColumnRef flds"
    "\<forall>s. String s \<notin> set flds"
proof -
  from assms obtain target where item: "item = ResTarget target"
    by (cases item) (simp_all add: hasNoStringField_def)
  with assms obtain flds where flds: "rt_val target = ColumnRef flds"
    by (cases "rt_val target") (simp_all add: hasNoStringField_def)
  with assms item have "list_all (\<lambda>f. case f of String sval \<Rightarrow> False | _ \<Rightarrow> True) flds"
    by (simp add: hasNoStringField_def)
  then have "\<forall>s. String s \<notin> set flds"
    by (auto simp: list_all_iff)
  with item flds that show thesis by blast
qed

lemma returningColumns_drop:
  assumes "hasNoStringField item"
  shows "returningColumns (item # rest) = returningColumns rest"
proof -
  from assms obtain target flds where item: "item = ResTarget target"
      and val: "rt_val target = ColumnRef flds" and flds: "\<forall>s. String s \<notin> set flds"
    by (rule hasNoStringField_cases)
  from flds have "returningColumnName flds = Some []"
    by (rule returningColumnName_no_String)
  with item val show ?thesis
    by (cases "returningColumns rest") simp_all
qed

lemma returningColumns_all_dropped:
  "list_all hasNoStringField l \<Longrightarrow> returningColumns l = Inr []"
proof (induction l)
  case Nil
  then show ?case by simp
next
  case (Cons item l)
  then have "hasNoStringField item" and "returningColumns l = Inr []"
    by simp_all
  then show ?case
    by (simp only: returningColumns_drop)
qed

lemma returningParam_empty: "returningParam (Some []) ps = ps \<and> returningParam None ps = ps"
  by (simp add: returningParam_def)

lemma render_empty_returning:
  "renderHttp rf rt enc (InsertStatement (i\<lparr> ins_returning := Some [] \<rparr>))
     = renderHttp rf rt enc (InsertStatement (i\<lparr> ins_returning := None \<rparr>))"
  "renderHttp rf rt enc (UpdateStatement (u\<lparr> upd_returning := Some [] \<rparr>))
     = renderHttp rf rt enc (UpdateStatement (u\<lparr> upd_returning := None \<rparr>))"
  "renderHttp rf rt enc (DeleteStatement (d\<lparr> del_returning := Some [] \<rparr>))
     = renderHttp rf rt enc (DeleteStatement (d\<lparr> del_returning := None \<rparr>))"
  by (simp_all add: renderHttp_def formatInsert_def formatUpdate_def formatDelete_def
        insertBody_def returningParam_empty)

text \<open>
  Claim C8, at the input where the code departs from it. The RETURNING entry
  \<open>t."my.col"\<close> is the column reference with the two name segments \<open>t\<close> and \<open>my.col\<close>.
  The processor joins the segments with dots and keeps what follows the last dot, so it
  keeps \<open>col\<close>, which is not the last segment; the unqualified \<open>"my.col"\<close> gives \<open>col\<close>
  as well. For the reference \<open>t.col\<close> it keeps \<open>col\<close>.
\<close>

theorem returning_segment_with_dot:
  "processReturning (Some [ResTarget \<lparr> rt_name = None,
       rt_val = ColumnRef [String ''t'', String ''my.col''] \<rparr>]) = Inr (Some [''col''])
   \<and> processReturning (Some [ResTarget \<lparr> rt_name = None,
       rt_val = ColumnRef [String ''my.col''] \<rparr>]) = Inr (Some [''col''])
   \<and> processReturning (Some [ResTarget \<lparr> rt_name = None,
       rt_val = ColumnRef [String ''t'', String ''col''] \<rparr>]) = Inr (Some [''col''])"
  by (simp add: processReturning_def returningColumnName_def fieldText_def pop_def)

section \<open>An INSERT without rows\<close>

lemma insertRows_empty: "(insertRows l = Inr []) = (l = [])"
  by (cases l) (auto split: sum.splits)

lemma insertValues_empty:
  "(insertValues sel = Inr []) = (sel = None \<or> (\<exists>s. sel = Some s \<and> valuesLists s = Some []))"
  by (cases sel) (auto simp: insertValues_def insertRows_empty split: option.splits)

text \<open>
  Claim C9. The VALUES block of the INSERT processor yields no row, and no error, when
  the inner select node is absent and when its list of value lists is empty, and in no
  other case. For such a statement that has a relation, a column list and a RETURNING
  list the processor accepts, and no ON CONFLICT clause, \<open>processInsertStatement\<close>
  returns the Insert with \<open>values = []\<close>, and the request rendered from it is a POST
  whose body is the empty array.
\<close>

theorem insert_without_rows:
  "insertValues None = Inr []
   \<and> insertValues (Some \<lparr> valuesLists = Some [] \<rparr>) = Inr []
   \<and> (insertValues sel = Inr []) = (sel = None \<or> (\<exists>s. sel = Some s \<and> valuesLists s = Some []))
   \<and> (ins_relation stmt = Some rel
        \<and> (case ins_cols stmt of None \<Rightarrow> Inr [] | Some cols \<Rightarrow> insertColumns cols) = Inr columns
        \<and> insertValues (ins_selectStmt stmt) = Inr []
        \<and> processReturning (ins_returningList stmt) = Inr returning
        \<and> \<not> ins_onConflictClause stmt
      \<longrightarrow> processInsertStatement stmt
            = Inr \<lparr> ins_into = relname rel, ins_columns = columns, ins_values = [],
                    ins_returning = returning \<rparr>
          \<and> request_method (renderHttp rf rt enc (InsertStatement
               \<lparr> ins_into = relname rel, ins_columns = columns, ins_values = [],
                 ins_returning = returning \<rparr>)) = POST
          \<and> body (renderHttp rf rt enc (InsertStatement
               \<lparr> ins_into = relname rel, ins_columns = columns, ins_values = [],
                 ins_returning = returning \<rparr>)) = Some (ArrayBody []))"
proof -
  have a: "insertValues None = Inr []"
      "insertValues (Some \<lparr> valuesLists = Some [] \<rparr>) = Inr []"
    by (simp_all add: insertValues_def)
  have b: "processInsertStatement stmt
            = Inr \<lparr> ins_into = relname rel, ins_columns = columns, ins_values = [],
                    ins_returning = returning \<rparr>"
    if "ins_relation stmt = Some rel"
       "(case ins_cols stmt of None \<Rightarrow> Inr [] | Some cols \<Rightarrow> insertColumns cols) = Inr columns"
       "insertValues (ins_selectStmt stmt) = Inr []"
       "processReturning (ins_returningList stmt) = Inr returning"
       "\<not> ins_onConflictClause stmt"
    using that by (simp add: processInsertStatement_def)
  have c: "request_method (renderHttp rf rt enc (InsertStatement
               \<lparr> ins_into = relname rel, ins_columns = columns, ins_values = [],
                 ins_returning = returning \<rparr>)) = POST"
      "body (renderHttp rf rt enc (InsertStatement
               \<lparr> ins_into = relname rel, ins_columns = columns, ins_values = [],
                 ins_returning = returning \<rparr>)) = Some (ArrayBody [])"
    by (simp_all add: renderHttp_def formatInsert_def insertBody_def Let_def)
  from a b c insertValues_empty [of sel] show ?thesis
    by blast
qed

text \<open>An instance: an INSERT into \<open>books\<close> with the column \<open>title\<close> and no inner select
  node is processed to an Insert without rows.\<close>

theorem insert_without_rows_witness:
  "processInsertStatement
     \<lparr> ins_relation = Some \<lparr> relname = ''books'' \<rparr>,
       ins_cols = Some [ResTarget \<lparr> rt_name = Some ''title'', rt_val = OtherNode \<rparr>],
       ins_selectStmt = None, ins_returningList = None, ins_onConflictClause = False \<rparr>
   = Inr \<lparr> ins_into = ''books'', ins_columns = [''title''], ins_values = [],
          ins_returning = None \<rparr>
   \<and> body (renderHttp (\<lambda>f. ([], [])) renderTargets (\<lambda>ps. []) (InsertStatement
        \<lparr> ins_into = ''books'', ins_columns = [''title''], ins_values = [],
          ins_returning = None \<rparr>)) = Some (ArrayBody [])"
proof -
  let ?stmt = "\<lparr> ins_relation = Some \<lparr> relname = ''books'' \<rparr>,
       ins_cols = Some [ResTarget \<lparr> rt_name = Some ''title'', rt_val = OtherNode \<rparr>],
       ins_selectStmt = None, ins_returningList = None, ins_onConflictClause = False \<rparr>"
  have h: "ins_relation ?stmt = Some \<lparr> relname = ''books'' \<rparr>
        \<and> (case ins_cols ?stmt of None \<Rightarrow> Inr [] | Some cols \<Rightarrow> insertColumns cols) = Inr [''title'']
        \<and> insertValues (ins_selectStmt ?stmt) = Inr []
        \<and> processReturning (ins_returningList ?stmt) = Inr None
        \<and> \<not> ins_onConflictClause ?stmt"
    by (simp add: insertValues_def processReturning_def)
  note inst = insert_without_rows [where sel = None and stmt = ?stmt
      and rel = "\<lparr> relname = ''books'' \<rparr>" and columns = "[''title'']" and returning = None
      and rf = "\<lambda>f. ([], [])" and rt = renderTargets and enc = "\<lambda>ps. []",
      THEN conjunct2, THEN conjunct2, THEN conjunct2, THEN mp, OF h]
  from inst show ?thesis
    by simp
qed

section \<open>RETURNING entries without a name\<close>

text \<open>
  Claim C10. A RETURNING entry that is a column reference without a \<open>String\<close> segment
  adds no name and throws no error: the loop goes on as if the entry were not there.
  When every entry of the list is such an entry, the processor returns the empty list
  of names, for which the renderer emits no \<open>select\<close> parameter: the INSERT, UPDATE or
  DELETE request is the one rendered without RETURNING.
\<close>

theorem returning_without_name_dropped:
  "(hasNoStringField item \<longrightarrow> returningColumns (item # rest) = returningColumns rest)
   \<and> (list_all hasNoStringField l \<longrightarrow> processReturning (Some l) = Inr (Some []))
   \<and> returningParam (Some []) ps = ps
   \<and> returningParam None ps = ps
   \<and> renderHttp rf rt enc (InsertStatement (i\<lparr> ins_returning := Some [] \<rparr>))
     = renderHttp rf rt enc (InsertStatement (i\<lparr> ins_returning := None \<rparr>))
   \<and> renderHttp rf rt enc (UpdateStatement (u\<lparr> upd_returning := Some [] \<rparr>))
     = renderHttp rf rt enc (UpdateStatement (u\<lparr> upd_returning := None \<rparr>))
   \<and> renderHttp rf rt enc (DeleteStatement (d\<lparr> del_returning := Some [] \<rparr>))
     = renderHttp rf rt enc (DeleteStatement (d\<lparr> del_returning := None \<rparr>))"
proof -
  have one: "hasNoStringField item \<longrightarrow> returningColumns (item # rest) = returningColumns rest"
    by (rule impI) (rule returningColumns_drop)
  have every: "list_all hasNoStringField l \<longrightarrow> processReturning (Some l) = Inr (Some [])"
    by (simp add: returningColumns_all_dropped processReturning_def)
  from one every returningParam_empty [of ps] render_empty_returning [of rf rt enc]
  show ?thesis
    by blast
qed

text \<open>An instance: \<open>RETURNING *\<close> gives the empty list of names, and so does
  \<open>RETURNING *, *\<close>.\<close>

theorem returning_without_name_dropped_witness:
  "processReturning (Some [ResTarget \<lparr> rt_name = None, rt_val = ColumnRef [A_Star] \<rparr>])
     = Inr (Some [])
   \<and> returningColumns [ResTarget \<lparr> rt_name = None, rt_val = ColumnRef [A_Star] \<rparr>,
        ResTarget \<lparr> rt_name = None, rt_val = ColumnRef [A_Star] \<rparr>] = Inr []"
proof -
  let ?star = "ResTarget \<lparr> rt_name = None, rt_val = ColumnRef [A_Star] \<rparr>"
  have star: "hasNoStringField ?star"
    by (simp add: hasNoStringField_def)
  then have all: "list_all hasNoStringField [?star]"
    by simp
  note a = returning_without_name_dropped [where l = "[?star]" and item = ?star
      and rest = "[?star]" and ps = "[]" and rf = "\<lambda>f. ([], [])" and rt = renderTargets
      and enc = "\<lambda>ps. []"
      and i = "\<lparr> ins_into = [], ins_columns = [], ins_values = [], ins_returning = None \<rparr>"
      and u = "\<lparr> upd_table = [], upd_set = emptyObject, upd_filter = None, upd_returning = None \<rparr>"
      and d = "\<lparr> del_from = [], del_filter = None, del_returning = None \<rparr>"]
  note once = a [THEN conjunct2, THEN conjunct1, THEN mp, OF all]
  note twice = a [THEN conjunct1, THEN mp, OF star]
  have "returningColumns [?star] = Inr []"
    using once by (simp add: processReturning_def split: sum.splits)
  with once twice show ?thesis
    by simp
qed

end
